theory Spec2Isabelle
  imports Main "HOL-Library.Log_Nat"
begin

section \<open>Forensic Sparsebundle Creator (MacOS\_Collector.py)\<close>

text \<open>
  A shallow embedding of \<^verbatim>\<open>src/MacOS_Collector.py\<close>. The script talks to the operating
  system all the time; every answer of the outside world is a field of an environment
  record \<open>env\<close>, and every effect the script has on the outside world is an \<open>event\<close>
  appended to a trace. An answer may depend on the trace so far, so the model covers
  worlds whose answers change as the script acts on them.
\<close>

subsection \<open>Python values\<close>

datatype py_exception = OverflowError | ZeroDivisionError

text \<open>
  A Python \<open>float\<close> is an IEEE 754 binary64 number. Only non-negative values occur in
  the script: \<open>Finite m e\<close> is the number \<open>m * 2 ^ e\<close>, \<open>Inf\<close> is positive infinity.
\<close>

datatype pyfloat = Finite nat int | Inf

definition round_half_even :: "nat \<Rightarrow> nat \<Rightarrow> nat" where
  "round_half_even num den =
     (let q = num div den; r = num mod den
      in if 2 * r < den then q
         else if den < 2 * r then q + 1
         else if even q then q else q + 1)"

text \<open>\<open>ilog2 num den\<close> is \<open>\<lfloor>log\<^sub>2 (num / den)\<rfloor>\<close> for positive \<open>num\<close> and \<open>den\<close>.\<close>

definition ilog2 :: "nat \<Rightarrow> nat \<Rightarrow> int" where
  "ilog2 num den =
     (let d = int (floorlog 2 num) - int (floorlog 2 den)
      in if (if 0 \<le> d then den * 2 ^ nat d \<le> num else den \<le> num * 2 ^ nat (- d))
         then d else d - 1)"

text \<open>
  \<open>to_double num den\<close> is the binary64 number nearest to \<open>num / den\<close> (ties to even):
  53 significant bits, the exponent of the last bit never below \<open>-1074\<close>, and
  infinity from \<open>2 ^ 1024\<close> on.
\<close>

definition to_double :: "nat \<Rightarrow> nat \<Rightarrow> pyfloat" where
  "to_double num den =
     (if num = 0 then Finite 0 0
      else let e = max (ilog2 num den) (- 1022) - 52;
               m = (if 0 \<le> e then round_half_even num (den * 2 ^ nat e)
                    else round_half_even (num * 2 ^ nat (- e)) den)
           in if 971 < e \<or> (e = 971 \<and> m = 2 ^ 53) then Inf else Finite m e)"

text \<open>\<open>a / b\<close> on two Python ints: the correctly rounded quotient, or an exception.\<close>

definition py_truediv :: "nat \<Rightarrow> nat \<Rightarrow> py_exception + pyfloat" where
  "py_truediv a b =
     (if b = 0 then Inl ZeroDivisionError
      else case to_double a b of Inf \<Rightarrow> Inl OverflowError | x \<Rightarrow> Inr x)"

text \<open>\<open>x * y\<close> on two floats: the exact product, rounded.\<close>

fun py_mul :: "pyfloat \<Rightarrow> pyfloat \<Rightarrow> pyfloat" where
  "py_mul (Finite m1 e1) (Finite m2 e2) =
     (let s = e1 + e2
      in if 0 \<le> s then to_double (m1 * m2 * 2 ^ nat s) 1
         else to_double (m1 * m2) (2 ^ nat (- s)))"
| "py_mul _ _ = Inf"

text \<open>\<open>int(x)\<close> truncates; \<open>int(inf)\<close> raises OverflowError.\<close>

fun py_int :: "pyfloat \<Rightarrow> py_exception + int" where
  "py_int (Finite m e) =
     Inr (if 0 \<le> e then int (m * 2 ^ nat e) else int (m div 2 ^ nat (- e)))"
| "py_int Inf = Inl OverflowError"

text \<open>The literal \<^verbatim>\<open>1.1\<close>: the double nearest to 11/10.\<close>

definition float_1_1 :: pyfloat where
  "float_1_1 = to_double 11 10"

subsection \<open>Paths\<close>

type_synonym path = string

text \<open>\<^verbatim>\<open>os.path.join(a, b)\<close> and \<^verbatim>\<open>os.path.basename(p)\<close> of \<^verbatim>\<open>posixpath\<close>.\<close>

definition path_join :: "path \<Rightarrow> path \<Rightarrow> path" where
  "path_join a b =
     (if b \<noteq> [] \<and> hd b = CHR ''/'' then b
      else if a = [] \<or> last a = CHR ''/'' then a @ b
      else a @ ''/'' @ b)"

definition basename :: "path \<Rightarrow> path" where
  "basename p = rev (takeWhile (\<lambda>c. c \<noteq> CHR ''/'') (rev p))"


text \<open>
  \<^verbatim>\<open>str.strip()\<close>: whitespace removed at both ends. Of the characters below 256,
  \<^verbatim>\<open>str.isspace\<close> holds of 9 to 13, 28 to 32, 133 and 160.
\<close>

definition is_space :: "char \<Rightarrow> bool" where
  "is_space c =
     (let n = of_char c :: nat
      in (9 \<le> n \<and> n \<le> 13) \<or> (28 \<le> n \<and> n \<le> 32) \<or> n = 133 \<or> n = 160)"

definition strip :: "string \<Rightarrow> string" where
  "strip s = rev (dropWhile is_space (rev (dropWhile is_space s)))"

text \<open>\<^verbatim>\<open>str(n)\<close> of an int, as an f-string renders it.\<close>

fun str_nat :: "nat \<Rightarrow> string" where
  "str_nat n =
     (if n < 10 then [''0123456789'' ! n]
      else str_nat (n div 10) @ [''0123456789'' ! (n mod 10)])"

declare str_nat.simps [simp del]

definition str_int :: "int \<Rightarrow> string" where
  "str_int i = (if i < 0 then ''-'' @ str_nat (nat (- i)) else str_nat (nat i))"

text \<open>How an f-string renders a digest (a string or \<^verbatim>\<open>None\<close>) and a bool.\<close>

fun str_digest :: "string option \<Rightarrow> string" where
  "str_digest None = ''None''"
| "str_digest (Some h) = h"

definition str_bool :: "bool \<Rightarrow> string" where
  "str_bool b = (if b then ''True'' else ''False'')"

subsection \<open>The outside world\<close>

text \<open>A hash log entry (the dict built in \<^verbatim>\<open>copy_with_metadata\<close>) and the report dict.\<close>

record hash_entry =
  source_path :: path
  destination_path :: path
  sha256_source :: "string option"
  sha256_destination :: "string option"
  timestamp :: string

record report_data =
  report_timestamp :: string
  sparsebundle_path :: path
  tool_version :: string
  system_info :: "(string \<times> string) list"
  file_hashes :: "hash_entry list"

text \<open>
  The effects of the script, in the order they happen:
  \<^item> \<open>CheckOutput cmd\<close>: \<^verbatim>\<open>subprocess.check_output(cmd)\<close> was called;
  \<^item> \<open>Exec cmd\<close>: \<^verbatim>\<open>execute_command\<close> called \<^verbatim>\<open>subprocess.Popen(cmd)\<close>;
  \<^item> \<open>Makedirs p\<close>: \<^verbatim>\<open>os.makedirs(p, exist_ok=True)\<close> was called;
  \<^item> \<open>Copy2 src dst\<close>: \<^verbatim>\<open>shutil.copy2(src, dst)\<close> was called;
  \<^item> \<open>WritePlist p d\<close>: \<^verbatim>\<open>plistlib.dump(d, f)\<close> wrote the whole of \<open>d\<close> to the file \<open>p\<close>;
  \<^item> \<open>WriteText p s\<close>: the file \<open>p\<close> was opened and the text \<open>s\<close> written to it;
  \<^item> \<open>WriteFailed p\<close>: opening or writing \<open>p\<close> raised, so \<open>p\<close> is missing or incomplete.
\<close>

datatype event =
    CheckOutput "string list"
  | Exec "string list"
  | Makedirs path
  | Copy2 path path
  | WritePlist path report_data
  | WriteText path string
  | WriteFailed path

text \<open>What \<^verbatim>\<open>subprocess.Popen\<close> followed by \<^verbatim>\<open>communicate\<close> gives: return code, stdout and
  stderr, or an exception with its message.\<close>

datatype popen_result = Exited int string string | PopenRaised string

text \<open>What \<^verbatim>\<open>subprocess.check_output\<close> gives: the output, a \<^verbatim>\<open>SubprocessError\<close>, or another
  exception (such as \<^verbatim>\<open>FileNotFoundError\<close> for a missing program).\<close>

datatype check_output_result = Output string | RaisedSubprocessError | RaisedOther

text \<open>
  The answers of the outside world. Each may depend on the events so far.
  \<open>selected_paths\<close> is what \<^verbatim>\<open>select_files_and_folders\<close> returns and \<open>chosen_destination\<close>
  what the destination dialog returns (empty when cancelled): the dialogs themselves are
  not modelled. \<open>getsize\<close> is \<open>None\<close> when \<^verbatim>\<open>os.path.getsize\<close> raises; \<open>sha256_of\<close> is the
  hex digest of the file's content, \<open>None\<close> when reading it raises; \<open>makedirs_ok\<close>,
  \<open>copy2_ok\<close> and \<open>open_write_ok\<close> are \<open>False\<close> when the call raises.
\<close>

record env =
  sys_platform :: string
  selected_paths :: "path list"
  chosen_destination :: path
  log_file :: path
  now_isoformat :: "event list \<Rightarrow> string"
  now_strftime :: "event list \<Rightarrow> string"
  isfile :: "event list \<Rightarrow> path \<Rightarrow> bool"
  isdir :: "event list \<Rightarrow> path \<Rightarrow> bool"
  path_exists :: "event list \<Rightarrow> path \<Rightarrow> bool"
  getsize :: "event list \<Rightarrow> path \<Rightarrow> nat option"
  walk :: "event list \<Rightarrow> path \<Rightarrow> (path \<times> path list \<times> path list) list"
  sha256_of :: "event list \<Rightarrow> path \<Rightarrow> string option"
  popen :: "event list \<Rightarrow> string list \<Rightarrow> popen_result"
  check_output :: "event list \<Rightarrow> string list \<Rightarrow> check_output_result"
  makedirs_ok :: "event list \<Rightarrow> path \<Rightarrow> bool"
  copy2_ok :: "event list \<Rightarrow> path \<Rightarrow> path \<Rightarrow> bool"
  open_write_ok :: "event list \<Rightarrow> path \<Rightarrow> bool"

subsection \<open>The functions of the script\<close>

text \<open>
  \<^verbatim>\<open>log_system_info\<close>: six \<^verbatim>\<open>check_output\<close> calls in one \<^verbatim>\<open>try\<close> that catches
  \<^verbatim>\<open>SubprocessError\<close> only. The result is \<open>True\<close> when the function returns and
  \<open>False\<close> when another exception escapes it. Calls to the logger are not modelled.
\<close>

fun log_commands :: "env \<Rightarrow> event list \<Rightarrow> string list list \<Rightarrow> bool \<times> event list" where
  "log_commands E tr [] = (True, tr)"
| "log_commands E tr (c # cs) =
     (case check_output E tr c of
        Output s \<Rightarrow> log_commands E (tr @ [CheckOutput c]) cs
      | RaisedSubprocessError \<Rightarrow> (True, tr @ [CheckOutput c])
      | RaisedOther \<Rightarrow> (False, tr @ [CheckOutput c]))"

definition log_system_info :: "env \<Rightarrow> event list \<Rightarrow> bool \<times> event list" where
  "log_system_info E tr =
     log_commands E tr
       [[''whoami''], [''hostname''], [''sw_vers'', ''-productVersion''],
        [''sw_vers'', ''-buildVersion''], [''uname'', ''-m''], [''uname'', ''-r'']]"

text \<open>\<^verbatim>\<open>calculate_hash\<close>: the digest, or \<^verbatim>\<open>None\<close> when anything raised.\<close>

definition calculate_hash :: "env \<Rightarrow> event list \<Rightarrow> path \<Rightarrow> string option" where
  "calculate_hash E tr file_path = sha256_of E tr file_path"

definition execute_command ::
  "env \<Rightarrow> event list \<Rightarrow> string list \<Rightarrow> (bool \<times> string) \<times> event list" where
  "execute_command E tr cmd =
     (case popen E tr cmd of
        PopenRaised msg \<Rightarrow> ((False, msg), tr @ [Exec cmd])
      | Exited returncode stdout stderr \<Rightarrow>
          if returncode \<noteq> 0 then ((False, stderr), tr @ [Exec cmd])
          else ((True, stdout), tr @ [Exec cmd]))"

definition create_command :: "path \<Rightarrow> string \<Rightarrow> int \<Rightarrow> string list" where
  "create_command sb_path name size_mb =
     [''hdiutil'', ''create'', ''-size'', str_int size_mb @ ''m'', ''-fs'', ''HFS+'',
      ''-volname'', name, ''-type'', ''SPARSEBUNDLE'', ''-encryption'', ''AES-256'', sb_path]"

definition create_sparsebundle ::
  "env \<Rightarrow> event list \<Rightarrow> path \<Rightarrow> string \<Rightarrow> int \<Rightarrow> (bool \<times> path) \<times> event list" where
  "create_sparsebundle E tr destination_dir name size_mb =
     (let sb_path = path_join destination_dir (name @ ''.sparsebundle'')
      in if path_exists E tr sb_path then ((False, sb_path), tr)
         else let ((success, output), tr') =
                    execute_command E tr (create_command sb_path name size_mb)
              in ((success, sb_path), tr'))"

definition mount_sparsebundle ::
  "env \<Rightarrow> event list \<Rightarrow> path \<Rightarrow> (bool \<times> path option) \<times> event list" where
  "mount_sparsebundle E tr sb_path =
     (let ((success, output), tr') =
            execute_command E tr
              [''hdiutil'', ''attach'', sb_path, ''-mountpoint'', ''/Volumes/ForensicData'']
      in if success then ((True, Some ''/Volumes/ForensicData''), tr')
         else ((False, None), tr'))"

definition unmount_command :: "path \<Rightarrow> string list" where
  "unmount_command mount_point = [''hdiutil'', ''detach'', mount_point, ''-force'']"

definition unmount_sparsebundle :: "env \<Rightarrow> event list \<Rightarrow> path \<Rightarrow> bool \<times> event list" where
  "unmount_sparsebundle E tr mount_point =
     (let ((success, output), tr') = execute_command E tr (unmount_command mount_point)
      in (success, tr'))"

text \<open>
  \<^verbatim>\<open>copy_with_metadata\<close> returns its boolean, the hash log (which it appends to in place)
  and the trace. The whole body is in a \<^verbatim>\<open>try\<close>: a raising \<^verbatim>\<open>os.makedirs\<close> gives \<open>False\<close>.
\<close>

definition copy_with_metadata ::
  "env \<Rightarrow> event list \<Rightarrow> path \<Rightarrow> path \<Rightarrow> hash_entry list
     \<Rightarrow> bool \<times> hash_entry list \<times> event list" where
  "copy_with_metadata E tr source destination hash_log =
     (if isfile E tr source then
        let ((success, output), tr1) =
              execute_command E tr [''ditto'', ''-v'', source, destination]
        in if success then
             let source_hash = calculate_hash E tr1 source;
                 dest_hash = calculate_hash E tr1
                   (if isdir E tr1 destination
                    then path_join destination (basename source) else destination);
                 hash_entry = \<lparr>source_path = source, destination_path = destination,
                   sha256_source = source_hash, sha256_destination = dest_hash,
                   timestamp = now_isoformat E tr1\<rparr>;
                 hash_log' = hash_log @ [hash_entry]
             in if source_hash \<noteq> dest_hash then (False, hash_log', tr1)
                else (True, hash_log', tr1)
           else (False, hash_log, tr1)
      else if isdir E tr source then
        let dest_dir = path_join destination (basename source);
            tr1 = tr @ [Makedirs dest_dir]
        in if \<not> makedirs_ok E tr dest_dir then (False, hash_log, tr1)
           else let ((success, output), tr2) =
                      execute_command E tr1 [''ditto'', ''-v'', source, dest_dir]
                in if \<not> success then (False, hash_log, tr2)
                   else (True, hash_log, tr2)
      else (True, hash_log, tr))"

text \<open>
  \<^verbatim>\<open>estimate_size_needed\<close>. Each selected path is handled in its own \<^verbatim>\<open>try\<close>: when
  \<^verbatim>\<open>os.path.getsize\<close> raises, the rest of that path is skipped and the sizes added so far
  stay in the total. The two inner functions return the total and whether they raised.
\<close>

fun sum_filenames ::
  "env \<Rightarrow> event list \<Rightarrow> path \<Rightarrow> path list \<Rightarrow> nat \<Rightarrow> nat \<times> bool" where
  "sum_filenames E tr dirpath [] tot = (tot, False)"
| "sum_filenames E tr dirpath (f # fs) tot =
     (let fp = path_join dirpath f
      in if path_exists E tr fp then
           (case getsize E tr fp of
              None \<Rightarrow> (tot, True)
            | Some n \<Rightarrow> sum_filenames E tr dirpath fs (tot + n))
         else sum_filenames E tr dirpath fs tot)"

fun sum_walk ::
  "env \<Rightarrow> event list \<Rightarrow> (path \<times> path list \<times> path list) list \<Rightarrow> nat \<Rightarrow> nat \<times> bool" where
  "sum_walk E tr [] tot = (tot, False)"
| "sum_walk E tr ((dirpath, dirnames, filenames) # rest) tot =
     (let (tot', raised) = sum_filenames E tr dirpath filenames tot
      in if raised then (tot', True) else sum_walk E tr rest tot')"

fun total_size :: "env \<Rightarrow> event list \<Rightarrow> path list \<Rightarrow> nat \<Rightarrow> nat" where
  "total_size E tr [] tot = tot"
| "total_size E tr (p # ps) tot =
     (if isfile E tr p then
        (case getsize E tr p of
           None \<Rightarrow> total_size E tr ps tot
         | Some n \<Rightarrow> total_size E tr ps (tot + n))
      else if isdir E tr p then
        total_size E tr ps (fst (sum_walk E tr (walk E tr p) tot))
      else total_size E tr ps tot)"

text \<open>
  \<^verbatim>\<open>size_mb = int((total_size / (1024 * 1024)) * 1.1)\<close> and \<^verbatim>\<open>max(size_mb, 100)\<close>. The
  arithmetic is outside every \<^verbatim>\<open>try\<close> of the function, so its exceptions escape.
\<close>

definition size_mb_of :: "nat \<Rightarrow> py_exception + int" where
  "size_mb_of tot =
     (case py_truediv tot (1024 * 1024) of
        Inl exn \<Rightarrow> Inl exn
      | Inr q \<Rightarrow>
          (case py_int (py_mul q float_1_1) of
             Inl exn \<Rightarrow> Inl exn
           | Inr size_mb \<Rightarrow> Inr (max size_mb 100)))"

definition estimate_size_needed :: "env \<Rightarrow> event list \<Rightarrow> path list \<Rightarrow> py_exception + int" where
  "estimate_size_needed E tr paths = size_mb_of (total_size E tr paths 0)"

text \<open>
  The total the specification speaks of, in its own words: the sum of the sizes of all
  regular files reachable under the selected paths. A selected regular file is
  reachable; under a selected directory, every file name that \<^verbatim>\<open>os.walk\<close> lists and that
  exists; under any other path, nothing. (A size that cannot be read adds nothing.)
\<close>

definition files_under :: "env \<Rightarrow> event list \<Rightarrow> path \<Rightarrow> path list" where
  "files_under E tr p =
     (if isfile E tr p then [p]
      else if isdir E tr p then
        concat (map (\<lambda>(dirpath, dirnames, filenames).
                       filter (path_exists E tr) (map (path_join dirpath) filenames))
                    (walk E tr p))
      else [])"

definition reachable_files :: "env \<Rightarrow> event list \<Rightarrow> path list \<Rightarrow> path list" where
  "reachable_files E tr paths = concat (map (files_under E tr) paths)"

definition size_or_zero :: "env \<Rightarrow> event list \<Rightarrow> path \<Rightarrow> nat" where
  "size_or_zero E tr f = (case getsize E tr f of None \<Rightarrow> 0 | Some n \<Rightarrow> n)"

definition total_bytes :: "env \<Rightarrow> event list \<Rightarrow> path list \<Rightarrow> nat" where
  "total_bytes E tr paths = sum_list (map (size_or_zero E tr) (reachable_files E tr paths))"

text \<open>
  The text report. \<open>report_header\<close> is everything written before the loop over the hash
  log, \<open>render_entry\<close> the six lines written for one entry.
\<close>

definition report_header :: "report_data \<Rightarrow> string" where
  "report_header d =
     ''FORENSIC SPARSEBUNDLE VERIFICATION REPORT\<newline>'' @
     ''=====================================\<newline>\<newline>'' @
     ''Created: '' @ report_timestamp d @ ''\<newline>'' @
     ''Sparsebundle: '' @ sparsebundle_path d @ ''\<newline>'' @
     ''Tool Version: '' @ tool_version d @ ''\<newline>\<newline>'' @
     ''SYSTEM INFORMATION\<newline>'' @
     ''-----------------\<newline>'' @
     concat (map (\<lambda>(k, v). k @ '': '' @ v @ ''\<newline>'') (system_info d)) @
     ''\<newline>FILE HASHES\<newline>'' @
     ''-----------\<newline>''"

definition render_entry :: "hash_entry \<Rightarrow> string" where
  "render_entry entry =
     ''Source: '' @ source_path entry @ ''\<newline>'' @
     ''Destination: '' @ destination_path entry @ ''\<newline>'' @
     ''Source SHA256: '' @ str_digest (sha256_source entry) @ ''\<newline>'' @
     ''Destination SHA256: '' @ str_digest (sha256_destination entry) @ ''\<newline>'' @
     ''Match: '' @ str_bool (sha256_source entry = sha256_destination entry) @ ''\<newline>'' @
     ''Timestamp: '' @ timestamp entry @ ''\<newline>\<newline>''"

definition report_text :: "report_data \<Rightarrow> hash_entry list \<Rightarrow> string" where
  "report_text d hash_log = report_header d @ concat (map render_entry hash_log)"

text \<open>
  \<^verbatim>\<open>plistlib.dump\<close> writes strings, numbers, booleans, dicts and lists. It raises
  \<^verbatim>\<open>TypeError\<close> on \<^verbatim>\<open>None\<close> and \<^verbatim>\<open>ValueError\<close> on a string holding a control character
  (a character below 32 other than tab, line feed and carriage return).
\<close>

definition plist_string :: "string \<Rightarrow> bool" where
  "plist_string s =
     list_all (\<lambda>c. 32 \<le> (of_char c :: nat) \<or> of_char c \<in> {9, 10, 13 :: nat}) s"

definition plist_entry :: "hash_entry \<Rightarrow> bool" where
  "plist_entry entry =
     (plist_string (source_path entry) \<and> plist_string (destination_path entry) \<and>
      (case sha256_source entry of None \<Rightarrow> False | Some h \<Rightarrow> plist_string h) \<and>
      (case sha256_destination entry of None \<Rightarrow> False | Some h \<Rightarrow> plist_string h) \<and>
      plist_string (timestamp entry))"

definition plist_supported :: "report_data \<Rightarrow> bool" where
  "plist_supported d =
     (plist_string (report_timestamp d) \<and> plist_string (sparsebundle_path d) \<and>
      plist_string (tool_version d) \<and>
      list_all (\<lambda>(k, v). plist_string k \<and> plist_string v) (system_info d) \<and>
      list_all plist_entry (file_hashes d))"

text \<open>
  \<^verbatim>\<open>create_verification_report\<close>. The report dict is built outside the \<^verbatim>\<open>try\<close>, so an
  exception of one of its three \<^verbatim>\<open>check_output\<close> calls escapes (result \<open>False\<close>). The
  two files are written inside one \<^verbatim>\<open>try\<close> whose handler only logs: when writing the
  plist raises, the text report is not attempted, and the function returns all the same
  (result \<open>True\<close>).
\<close>

definition write_reports ::
  "env \<Rightarrow> event list \<Rightarrow> report_data \<Rightarrow> hash_entry list \<Rightarrow> path \<Rightarrow> path \<Rightarrow> event list" where
  "write_reports E tr d hash_log report_path output_path =
     (if \<not> open_write_ok E tr report_path \<or> \<not> plist_supported d
      then tr @ [WriteFailed report_path]
      else let tr1 = tr @ [WritePlist report_path d];
               txt_report_path = path_join output_path ''verification_report.txt''
           in if \<not> open_write_ok E tr1 txt_report_path
              then tr1 @ [WriteFailed txt_report_path]
              else tr1 @ [WriteText txt_report_path (report_text d hash_log)])"

definition create_verification_report ::
  "env \<Rightarrow> event list \<Rightarrow> hash_entry list \<Rightarrow> path \<Rightarrow> path \<Rightarrow> bool \<times> event list" where
  "create_verification_report E tr hash_log output_path sb_path =
     (let report_path = path_join output_path ''verification_report.plist'';
          now = now_isoformat E tr;
          tr1 = tr @ [CheckOutput [''whoami'']];
          tr2 = tr1 @ [CheckOutput [''hostname'']];
          tr3 = tr2 @ [CheckOutput [''sw_vers'', ''-productVersion'']]
      in case check_output E tr [''whoami''] of
           Output user \<Rightarrow>
             (case check_output E tr1 [''hostname''] of
                Output hostname \<Rightarrow>
                  (case check_output E tr2 [''sw_vers'', ''-productVersion''] of
                     Output macos_version \<Rightarrow>
                       (True,
                        write_reports E tr3
                          \<lparr>report_timestamp = now, sparsebundle_path = sb_path,
                           tool_version = ''Forensic Sparsebundle Creator 1.0.0'',
                           system_info = [(''user'', strip user),
                             (''hostname'', strip hostname),
                             (''macos_version'', strip macos_version)],
                           file_hashes = hash_log\<rparr>
                          hash_log report_path output_path)
                   | _ \<Rightarrow> (False, tr3))
              | _ \<Rightarrow> (False, tr2))
         | _ \<Rightarrow> (False, tr1))"

text \<open>
  \<^verbatim>\<open>main\<close>, in three parts. \<open>main_prepare\<close> is the body up to the creation of the
  \<^verbatim>\<open>copied_files\<close> directory: it gives \<open>Inl\<close> of the exit status where \<^verbatim>\<open>main\<close> returns
  early (an exception anywhere in \<^verbatim>\<open>main\<close> is caught and gives status 1), or \<open>Inr\<close> of
  the container path, the mount point, the log directory and the files directory.
  (A mount point \<^verbatim>\<open>None\<close> would make \<^verbatim>\<open>os.path.join\<close> raise; \<open>mount_sparsebundle\<close> never
  returns it together with success.) \<open>copy_all\<close> is the loop over the selected paths,
  \<open>main_finish\<close> the rest. The module-level code that configures logging and the calls
  to the logger are left out.
\<close>

definition main_prepare ::
  "env \<Rightarrow> (int \<times> event list) + ((path \<times> path \<times> path \<times> path) \<times> event list)" where
  "main_prepare E =
     (let (returned, tr1) = log_system_info E []
      in if \<not> returned then Inl (1, tr1)
         else if sys_platform E \<noteq> ''darwin'' then Inl (1, tr1)
         else if selected_paths E = [] then Inl (1, tr1)
         else case estimate_size_needed E tr1 (selected_paths E) of
           Inl exn \<Rightarrow> Inl (1, tr1)
         | Inr size_needed \<Rightarrow>
             if chosen_destination E = [] then Inl (1, tr1)
             else
               let sparsebundle_name = ''ForensicData_'' @ now_strftime E tr1;
                   ((success, sb_path), tr2) =
                     create_sparsebundle E tr1 (chosen_destination E) sparsebundle_name
                       size_needed
               in if \<not> success then Inl (1, tr2)
                  else
                    let ((success, mount_point), tr3) = mount_sparsebundle E tr2 sb_path
                    in if \<not> success then Inl (1, tr3)
                       else case mount_point of
                         None \<Rightarrow> Inl (1, tr3)
                       | Some mount_point \<Rightarrow>
                           let log_dir_in_sparsebundle = path_join mount_point ''forensic_logs'';
                               tr4 = tr3 @ [Makedirs log_dir_in_sparsebundle];
                               tr5 = tr4 @ [Copy2 (log_file E) log_dir_in_sparsebundle];
                               files_dir = path_join mount_point ''copied_files'';
                               tr6 = tr5 @ [Makedirs files_dir]
                           in if \<not> makedirs_ok E tr3 log_dir_in_sparsebundle then Inl (1, tr4)
                              else if \<not> copy2_ok E tr4 (log_file E) log_dir_in_sparsebundle
                              then Inl (1, tr5)
                              else if \<not> makedirs_ok E tr5 files_dir then Inl (1, tr6)
                              else Inr ((sb_path, mount_point, log_dir_in_sparsebundle,
                                         files_dir), tr6))"

fun copy_all ::
  "env \<Rightarrow> event list \<Rightarrow> path \<Rightarrow> path list \<Rightarrow> hash_entry list \<Rightarrow> bool
     \<Rightarrow> bool \<times> hash_entry list \<times> event list" where
  "copy_all E tr files_dir [] hash_log success = (success, hash_log, tr)"
| "copy_all E tr files_dir (p # ps) hash_log success =
     (let (ok, hash_log', tr') = copy_with_metadata E tr p files_dir hash_log
      in copy_all E tr' files_dir ps hash_log' (if \<not> ok then False else success))"

definition main_finish ::
  "env \<Rightarrow> event list \<Rightarrow> hash_entry list \<Rightarrow> bool \<Rightarrow> path \<Rightarrow> path \<Rightarrow> path
     \<Rightarrow> int \<times> event list" where
  "main_finish E tr hash_log success log_dir_in_sparsebundle sb_path mount_point =
     (let (returned, tr1) =
            create_verification_report E tr hash_log log_dir_in_sparsebundle sb_path
      in if \<not> returned then (1, tr1)
         else let (unmounted, tr2) = unmount_sparsebundle E tr1 mount_point
              in if \<not> unmounted then (1, tr2)
                 else if success then (0, tr2)
                 else (1, tr2))"

definition main :: "env \<Rightarrow> int \<times> event list" where
  "main E =
     (case main_prepare E of
        Inl early \<Rightarrow> early
      | Inr ((sb_path, mount_point, log_dir_in_sparsebundle, files_dir), tr) \<Rightarrow>
          let (success, hash_log, tr') = copy_all E tr files_dir (selected_paths E) [] True
          in main_finish E tr' hash_log success log_dir_in_sparsebundle sb_path mount_point)"

text \<open>
  The results of the successive calls of \<open>copy_with_metadata\<close> that the loop of \<^verbatim>\<open>main\<close>
  makes, one for each selected path, each call starting from the hash log and the trace
  the call before it left.
\<close>

fun copy_results ::
  "env \<Rightarrow> event list \<Rightarrow> path \<Rightarrow> path list \<Rightarrow> hash_entry list
     \<Rightarrow> (bool \<times> hash_entry list \<times> event list) list" where
  "copy_results E tr files_dir [] hash_log = []"
| "copy_results E tr files_dir (p # ps) hash_log =
     (let (ok, hash_log', tr') = copy_with_metadata E tr p files_dir hash_log
      in (ok, hash_log', tr') # copy_results E tr' files_dir ps hash_log')"

text \<open>The events that touch a report file.\<close>

fun is_report_write :: "event \<Rightarrow> bool" where
  "is_report_write (WritePlist p d) = True"
| "is_report_write (WriteText p s) = True"
| "is_report_write (WriteFailed p) = True"
| "is_report_write _ = False"

subsection \<open>Concrete worlds\<close>

text \<open>
  A macOS machine on which every command and every system call succeeds unless said
  otherwise: the selected paths are regular files of 1024 bytes, the files directory
  inside the mounted container is a directory, \<open>run\<close> answers the commands,
  \<open>digest\<close> gives the digest of each path and \<open>writable\<close> says which files can be
  written.
\<close>

definition world ::
  "path list \<Rightarrow> (string list \<Rightarrow> popen_result) \<Rightarrow> (path \<Rightarrow> string option) \<Rightarrow> (path \<Rightarrow> bool) \<Rightarrow> env" where
  "world sel run digest writable =
     \<lparr>sys_platform = ''darwin'',
      selected_paths = sel,
      chosen_destination = ''/cases'',
      log_file = ''/Users/examiner/forensic_logs/run.log'',
      now_isoformat = (\<lambda>tr. ''2024-05-01T10:00:00''),
      now_strftime = (\<lambda>tr. ''20240501_100000''),
      isfile = (\<lambda>tr p. p \<in> set sel),
      isdir = (\<lambda>tr p. p = ''/Volumes/ForensicData/copied_files''),
      path_exists = (\<lambda>tr p. False),
      getsize = (\<lambda>tr p. Some 1024),
      walk = (\<lambda>tr p. []),
      sha256_of = (\<lambda>tr. digest),
      popen = (\<lambda>tr. run),
      check_output = (\<lambda>tr cmd. Output ''examiner\<newline>''),
      makedirs_ok = (\<lambda>tr p. True),
      copy2_ok = (\<lambda>tr src dst. True),
      open_write_ok = (\<lambda>tr. writable)\<rparr>"

definition all_succeed :: "string list \<Rightarrow> popen_result" where
  "all_succeed cmd = Exited 0 [] []"

text \<open>
  The pieces of the concrete runs below: three selected files, a \<^verbatim>\<open>ditto\<close> that fails for
  one source, digests that agree everywhere or differ for one copy, the trace of a run
  up to the copy loop, and the record, events and report of such a run.
\<close>

definition evidence :: "path list" where
  "evidence = [''/evidence/a.txt'', ''/evidence/b.txt'', ''/evidence/c.txt'']"


definition same_digest :: "path \<Rightarrow> string option" where
  "same_digest p = Some ''ab12''"


definition prepared_trace :: "event list" where
  "prepared_trace =
     [CheckOutput [''whoami''], CheckOutput [''hostname''],
      CheckOutput [''sw_vers'', ''-productVersion''],
      CheckOutput [''sw_vers'', ''-buildVersion''],
      CheckOutput [''uname'', ''-m''], CheckOutput [''uname'', ''-r''],
      Exec [''hdiutil'', ''create'', ''-size'', ''100m'', ''-fs'', ''HFS+'',
        ''-volname'', ''ForensicData_20240501_100000'', ''-type'',
        ''SPARSEBUNDLE'', ''-encryption'', ''AES-256'',
        ''/cases/ForensicData_20240501_100000.sparsebundle''],
      Exec [''hdiutil'', ''attach'',
        ''/cases/ForensicData_20240501_100000.sparsebundle'',
        ''-mountpoint'', ''/Volumes/ForensicData''],
      Makedirs ''/Volumes/ForensicData/forensic_logs'',
      Copy2 ''/Users/examiner/forensic_logs/run.log'' ''/Volumes/ForensicData/forensic_logs'',
      Makedirs ''/Volumes/ForensicData/copied_files'']"

definition copied :: "path \<Rightarrow> string \<Rightarrow> string \<Rightarrow> hash_entry" where
  "copied p h1 h2 =
     \<lparr>source_path = p, destination_path = ''/Volumes/ForensicData/copied_files'',
      sha256_source = Some h1, sha256_destination = Some h2,
      timestamp = ''2024-05-01T10:00:00''\<rparr>"

definition unhashed :: "path \<Rightarrow> hash_entry" where
  "unhashed p =
     \<lparr>source_path = p, destination_path = ''/Volumes/ForensicData/copied_files'',
      sha256_source = None, sha256_destination = None,
      timestamp = ''2024-05-01T10:00:00''\<rparr>"

definition ditto :: "path \<Rightarrow> event" where
  "ditto p = Exec [''ditto'', ''-v'', p, ''/Volumes/ForensicData/copied_files'']"

definition report_queries :: "event list" where
  "report_queries =
     [CheckOutput [''whoami''], CheckOutput [''hostname''],
      CheckOutput [''sw_vers'', ''-productVersion'']]"

definition report_of :: "hash_entry list \<Rightarrow> report_data" where
  "report_of hash_log =
     \<lparr>report_timestamp = ''2024-05-01T10:00:00'',
      sparsebundle_path = ''/cases/ForensicData_20240501_100000.sparsebundle'',
      tool_version = ''Forensic Sparsebundle Creator 1.0.0'',
      system_info = [(''user'', ''examiner''), (''hostname'', ''examiner''),
        (''macos_version'', ''examiner'')],
      file_hashes = hash_log\<rparr>"

definition plist_path :: path where
  "plist_path = ''/Volumes/ForensicData/forensic_logs/verification_report.plist''"

definition txt_path :: path where
  "txt_path = ''/Volumes/ForensicData/forensic_logs/verification_report.txt''"

definition unmount :: event where
  "unmount = Exec [''hdiutil'', ''detach'', ''/Volumes/ForensicData'', ''-force'']"

text \<open>The same machine with one selected file of 101 MiB.\<close>

definition one_big_file :: env where
  "one_big_file =
     (world [''/evidence/disk.img''] all_succeed same_digest (\<lambda>p. True))
       \<lparr>getsize := \<lambda>tr p. Some 105906176\<rparr>"

text \<open>
  A selection of a file of 100 MiB, a directory tree with two files of half a MiB and a
  dangling link, and a path that no longer exists; and a directory whose first entry
  cannot be read.
\<close>

definition case_folder :: env where
  "case_folder =
     (world [''/evidence/disk.img'', ''/evidence/docs'', ''/evidence/gone''] all_succeed same_digest
        (\<lambda>p. True))
       \<lparr>isfile := \<lambda>tr p. p = ''/evidence/disk.img'',
        isdir := \<lambda>tr p. p = ''/evidence/docs'',
        path_exists := \<lambda>tr p. p \<noteq> ''/evidence/docs/stale.lnk'',
        walk := \<lambda>tr p. if p = ''/evidence/docs''
          then [(''/evidence/docs'', [''mail''], [''a.txt'', ''stale.lnk'']),
                (''/evidence/docs/mail'', [], [''inbox.mbox''])]
          else [],
        getsize := \<lambda>tr p. if p = ''/evidence/disk.img'' then Some 104857600
          else if p = ''/evidence/docs/a.txt'' then Some 524288
          else if p = ''/evidence/docs/mail/inbox.mbox'' then Some 524288
          else None\<rparr>"

definition unreadable_entry :: env where
  "unreadable_entry =
     (world [''/evidence/docs''] all_succeed same_digest (\<lambda>p. True))
       \<lparr>isfile := \<lambda>tr p. False,
        isdir := \<lambda>tr p. p = ''/evidence/docs'',
        path_exists := \<lambda>tr p. True,
        walk := \<lambda>tr p. [(''/evidence/docs'', [], [''locked.db'', ''disk.img''])],
        getsize := \<lambda>tr p. if p = ''/evidence/docs/disk.img'' then Some 1073741824 else None\<rparr>"

section \<open>Properties\<close>

subsection \<open>Helper lemmas\<close>

lemma execute_command_trace: "snd (execute_command E tr cmd) = tr @ [Exec cmd]"
  by (simp add: execute_command_def split: popen_result.splits)

lemma log_commands_events:
  "\<exists>evs. snd (log_commands E tr cs) = tr @ evs \<and> set evs \<subseteq> range CheckOutput"
proof (induction cs arbitrary: tr)
  case Nil
  then show ?case by simp
next
  case (Cons c cs)
  show ?case
  proof (cases "check_output E tr c")
    case (Output s)
    from Cons.IH [of "tr @ [CheckOutput c]"] obtain evs where
      "snd (log_commands E (tr @ [CheckOutput c]) cs) = (tr @ [CheckOutput c]) @ evs"
      "set evs \<subseteq> range CheckOutput" by blast
    with Output have "snd (log_commands E tr (c # cs)) = tr @ (CheckOutput c # evs)
      \<and> set (CheckOutput c # evs) \<subseteq> range CheckOutput" by simp
    then show ?thesis by blast
  next
    case RaisedSubprocessError
    then have "snd (log_commands E tr (c # cs)) = tr @ [CheckOutput c]
      \<and> set [CheckOutput c] \<subseteq> range CheckOutput" by simp
    then show ?thesis by blast
  next
    case RaisedOther
    then have "snd (log_commands E tr (c # cs)) = tr @ [CheckOutput c]
      \<and> set [CheckOutput c] \<subseteq> range CheckOutput" by simp
    then show ?thesis by blast
  qed
qed


lemma copy_all_False: "fst (copy_all E tr d ps hash_log False) = False"
  by (induction ps arbitrary: tr hash_log) (simp_all split: prod.splits)

lemma copy_with_metadata_file_copied:
  assumes "isfile E tr source"
    and "execute_command E tr [''ditto'', ''-v'', source, d] = ((True, output), tr1)"
  shows "copy_with_metadata E tr source d hash_log =
     (calculate_hash E tr1 source =
        calculate_hash E tr1 (if isdir E tr1 d then path_join d (basename source) else d),
      hash_log @ [\<lparr>source_path = source, destination_path = d,
         sha256_source = calculate_hash E tr1 source,
         sha256_destination =
           calculate_hash E tr1 (if isdir E tr1 d then path_join d (basename source) else d),
         timestamp = now_isoformat E tr1\<rparr>],
      tr1)"
  using assms by (simp add: copy_with_metadata_def Let_def)


lemma main_unfold:
  "main_prepare E = Inr ((sb, mp, logd, filesd), tr0) \<Longrightarrow>
   copy_all E tr0 filesd (selected_paths E) [] True = (ok, hash_log, tr1) \<Longrightarrow>
   main E = main_finish E tr1 hash_log ok logd sb mp"
  by (simp add: main_def)


lemma main_prepare_early: "main_prepare E = Inl (status, tr) \<Longrightarrow> status = 1"
  by (auto simp: main_prepare_def Let_def split: prod.splits sum.splits if_splits option.splits)

lemma main_prepare_done:
  assumes "main_prepare E = Inr ((sb, mp, logd, filesd), tr0)"
  shows "sys_platform E = ''darwin'' \<and> selected_paths E \<noteq> [] \<and> chosen_destination E \<noteq> [] \<and>
    logd = path_join mp ''forensic_logs'' \<and> filesd = path_join mp ''copied_files'' \<and>
    (\<exists>tr1 tr2 tr3 name size_needed.
       create_sparsebundle E tr1 (chosen_destination E) name size_needed = ((True, sb), tr2) \<and>
       mount_sparsebundle E tr2 sb = ((True, Some mp), tr3))"
  using assms
  by (auto simp: main_prepare_def Let_def split: prod.splits sum.splits if_splits option.splits)

lemma copy_with_metadata_matches:
  "copy_with_metadata E tr source d hash_log = (True, log', tr') \<Longrightarrow>
   \<forall>entry\<in>set hash_log. sha256_source entry = sha256_destination entry \<Longrightarrow>
   \<forall>entry\<in>set log'. sha256_source entry = sha256_destination entry"
  by (auto simp: copy_with_metadata_def Let_def split: prod.splits if_splits)

lemma copy_all_matches:
  "copy_all E tr d ps hash_log ok = (True, log', tr') \<Longrightarrow>
   \<forall>entry\<in>set hash_log. sha256_source entry = sha256_destination entry \<Longrightarrow>
   \<forall>entry\<in>set log'. sha256_source entry = sha256_destination entry"
proof (induction ps arbitrary: tr hash_log ok)
  case Nil
  then show ?case by simp
next
  case (Cons p ps)
  obtain ok1 log1 tr1 where step: "copy_with_metadata E tr p d hash_log = (ok1, log1, tr1)"
    by (cases "copy_with_metadata E tr p d hash_log") auto
  with Cons.prems(1) have rest: "copy_all E tr1 d ps log1 (if \<not> ok1 then False else ok) = (True, log', tr')"
    by simp
  have "ok1"
  proof (rule ccontr)
    assume "\<not> ok1"
    with rest copy_all_False [of E tr1 d ps log1] show False by simp
  qed
  with step have "copy_with_metadata E tr p d hash_log = (True, log1, tr1)" by simp
  from copy_with_metadata_matches [OF this Cons.prems(2)]
  have "\<forall>entry\<in>set log1. sha256_source entry = sha256_destination entry" .
  with rest show ?case using Cons.IH by blast
qed

lemma main_finish_status:
  "fst (main_finish E tr hash_log ok logd sb mp) =
     (if fst (create_verification_report E tr hash_log logd sb) \<and>
         fst (unmount_sparsebundle E (snd (create_verification_report E tr hash_log logd sb)) mp) \<and> ok
      then 0 else 1)"
  by (simp add: main_finish_def Let_def split: prod.splits)

lemma log_system_info_no_writes:
  "\<forall>ev\<in>set (snd (log_system_info E [])). \<not> is_report_write ev"
proof -
  obtain evs where "snd (log_system_info E []) = [] @ evs" "set evs \<subseteq> range CheckOutput"
    unfolding log_system_info_def using log_commands_events by blast
  then show ?thesis by auto
qed

lemma main_prepare_no_writes:
  assumes "main_prepare E = Inr (ctx, tr0)"
  shows "\<forall>ev\<in>set tr0. \<not> is_report_write ev"
proof -
  obtain returned tr where info: "log_system_info E [] = (returned, tr)"
    by (cases "log_system_info E []") auto
  with log_system_info_no_writes [of E] have tr: "\<forall>ev\<in>set tr. \<not> is_report_write ev" by simp
  from assms info have "\<exists>evs. tr0 = tr @ evs \<and> (\<forall>ev\<in>set evs. \<not> is_report_write ev)"
    by (auto simp: main_prepare_def create_sparsebundle_def mount_sparsebundle_def
        execute_command_def Let_def
        split: prod.splits sum.splits if_splits option.splits popen_result.splits)
  with tr show ?thesis by auto
qed

lemma copy_with_metadata_no_writes:
  "\<exists>evs. snd (snd (copy_with_metadata E tr source d hash_log)) = tr @ evs \<and>
     (\<forall>ev\<in>set evs. \<not> is_report_write ev)"
  by (auto simp: copy_with_metadata_def execute_command_def Let_def
      split: prod.splits if_splits popen_result.splits)

lemma copy_all_no_writes:
  "\<exists>evs. snd (snd (copy_all E tr d ps hash_log ok)) = tr @ evs \<and>
     (\<forall>ev\<in>set evs. \<not> is_report_write ev)"
proof (induction ps arbitrary: tr hash_log ok)
  case Nil
  then show ?case by simp
next
  case (Cons p ps)
  obtain ok1 log1 tr1 where step: "copy_with_metadata E tr p d hash_log = (ok1, log1, tr1)"
    by (cases "copy_with_metadata E tr p d hash_log") auto
  with copy_with_metadata_no_writes [of E tr p d hash_log]
  obtain evs1 where evs1: "tr1 = tr @ evs1" "\<forall>ev\<in>set evs1. \<not> is_report_write ev" by auto
  from Cons.IH [of tr1 log1 "if \<not> ok1 then False else ok"]
  obtain evs2 where evs2:
    "snd (snd (copy_all E tr1 d ps log1 (if \<not> ok1 then False else ok))) = tr1 @ evs2"
    "\<forall>ev\<in>set evs2. \<not> is_report_write ev" by blast
  have "snd (snd (copy_all E tr d (p # ps) hash_log ok)) = tr @ (evs1 @ evs2)"
    using step evs1(1) evs2(1) by simp
  moreover have "\<forall>ev\<in>set (evs1 @ evs2). \<not> is_report_write ev"
    using evs1(2) evs2(2) by auto
  ultimately show ?case by blast
qed

lemma create_verification_report_events:
  "\<exists>queries writes d.
     create_verification_report E tr hash_log output_path sb = (writes \<noteq> [], tr @ queries @ writes) \<and>
     set queries \<subseteq> range CheckOutput \<and>
     file_hashes d = hash_log \<and> sparsebundle_path d = sb \<and>
     (writes = [] \<or>
      writes = [WriteFailed (path_join output_path ''verification_report.plist'')] \<or>
      writes = [WritePlist (path_join output_path ''verification_report.plist'') d,
                WriteFailed (path_join output_path ''verification_report.txt'')] \<or>
      writes = [WritePlist (path_join output_path ''verification_report.plist'') d,
                WriteText (path_join output_path ''verification_report.txt'')
                  (report_text d hash_log)])"
proof -
  let ?q1 = "[CheckOutput [''whoami'']]"
  let ?q2 = "?q1 @ [CheckOutput [''hostname'']]"
  let ?q3 = "?q2 @ [CheckOutput [''sw_vers'', ''-productVersion'']]"
  let ?blank = "\<lparr>report_timestamp = [], sparsebundle_path = sb, tool_version = [],
     system_info = [], file_hashes = hash_log\<rparr>"
  have raised: "create_verification_report E tr hash_log output_path sb = (False, tr @ qs) \<Longrightarrow>
      set qs \<subseteq> range CheckOutput \<Longrightarrow> ?thesis" for qs
    by (rule exI [of _ qs], rule exI [of _ "[]"], rule exI [of _ ?blank]) simp
  show ?thesis
  proof (cases "check_output E tr [''whoami'']")
    case (Output user)
    show ?thesis
    proof (cases "check_output E (tr @ ?q1) [''hostname'']")
      case (Output hostname) note host = this
      show ?thesis
      proof (cases "check_output E (tr @ ?q2) [''sw_vers'', ''-productVersion'']")
        case (Output macos_version)
        let ?d = "\<lparr>report_timestamp = now_isoformat E tr, sparsebundle_path = sb,
           tool_version = ''Forensic Sparsebundle Creator 1.0.0'',
           system_info = [(''user'', strip user), (''hostname'', strip hostname),
             (''macos_version'', strip macos_version)],
           file_hashes = hash_log\<rparr>"
        let ?w = "drop (length (tr @ ?q3))
           (write_reports E (tr @ ?q3) ?d hash_log
              (path_join output_path ''verification_report.plist'') output_path)"
        have "create_verification_report E tr hash_log output_path sb = (?w \<noteq> [], tr @ ?q3 @ ?w)"
          using \<open>check_output E tr [''whoami''] = Output user\<close> host Output
          by (simp add: create_verification_report_def write_reports_def Let_def)
        moreover have "?w = [WriteFailed (path_join output_path ''verification_report.plist'')] \<or>
          ?w = [WritePlist (path_join output_path ''verification_report.plist'') ?d,
                WriteFailed (path_join output_path ''verification_report.txt'')] \<or>
          ?w = [WritePlist (path_join output_path ''verification_report.plist'') ?d,
                WriteText (path_join output_path ''verification_report.txt'')
                  (report_text ?d hash_log)]"
          by (simp add: write_reports_def Let_def)
        ultimately show ?thesis
          by (intro exI [of _ ?q3] exI [of _ ?w] exI [of _ ?d]) auto
      next
        case RaisedSubprocessError
        with \<open>check_output E tr [''whoami''] = Output user\<close> host show ?thesis
          by (intro raised [of ?q3]) (simp_all add: create_verification_report_def Let_def)
      next
        case RaisedOther
        with \<open>check_output E tr [''whoami''] = Output user\<close> host show ?thesis
          by (intro raised [of ?q3]) (simp_all add: create_verification_report_def Let_def)
      qed
    next
      case RaisedSubprocessError
      with Output show ?thesis
        by (intro raised [of ?q2]) (simp_all add: create_verification_report_def Let_def)
    next
      case RaisedOther
      with Output show ?thesis
        by (intro raised [of ?q2]) (simp_all add: create_verification_report_def Let_def)
    qed
  next
    case RaisedSubprocessError
    then show ?thesis
      by (intro raised [of ?q1]) (simp_all add: create_verification_report_def Let_def)
  next
    case RaisedOther
    then show ?thesis
      by (intro raised [of ?q1]) (simp_all add: create_verification_report_def Let_def)
  qed
qed

lemma unmount_sparsebundle_trace:
  "snd (unmount_sparsebundle E tr mp) = tr @ [Exec (unmount_command mp)]"
  using execute_command_trace [of E tr "unmount_command mp"]
  by (auto simp: unmount_sparsebundle_def split: prod.splits)

lemma main_finish_trace:
  "snd (main_finish E tr hash_log ok logd sb mp) =
     (if fst (create_verification_report E tr hash_log logd sb)
      then snd (create_verification_report E tr hash_log logd sb) @ [Exec (unmount_command mp)]
      else snd (create_verification_report E tr hash_log logd sb))"
proof -
  obtain returned tr1 where rep: "create_verification_report E tr hash_log logd sb = (returned, tr1)"
    by (cases "create_verification_report E tr hash_log logd sb") auto
  obtain unmounted tr2 where un: "unmount_sparsebundle E tr1 mp = (unmounted, tr2)"
    by (cases "unmount_sparsebundle E tr1 mp") auto
  with unmount_sparsebundle_trace [of E tr1 mp] have "tr2 = tr1 @ [Exec (unmount_command mp)]"
    by simp
  with rep un show ?thesis by (simp add: main_finish_def)
qed

lemma copy_all_results:
  "copy_all E tr d ps hash_log ok =
     (ok \<and> (\<forall>r\<in>set (copy_results E tr d ps hash_log). fst r),
      snd (last ((ok, hash_log, tr) # copy_results E tr d ps hash_log)))"
proof (induction ps arbitrary: tr hash_log ok)
  case Nil
  then show ?case by simp
next
  case (Cons p ps)
  obtain ok1 log1 tr1 where step: "copy_with_metadata E tr p d hash_log = (ok1, log1, tr1)"
    by (cases "copy_with_metadata E tr p d hash_log") auto
  show ?case
    using step Cons.IH [of tr1 log1 "if \<not> ok1 then False else ok"]
    by (cases "copy_results E tr1 d ps log1") auto
qed

lemma copy_results_length: "length (copy_results E tr d ps hash_log) = length ps"
  by (induction ps arbitrary: tr hash_log) (simp_all split: prod.splits)

lemma copy_all_results_nonempty:
  assumes "ps \<noteq> []"
  shows "copy_all E tr d ps hash_log True =
     (\<forall>r\<in>set (copy_results E tr d ps hash_log). fst r,
      snd (last (copy_results E tr d ps hash_log)))"
proof -
  have "copy_results E tr d ps hash_log \<noteq> []"
    using assms copy_results_length [of E tr d ps hash_log] by auto
  then show ?thesis by (simp add: copy_all_results)
qed

lemma main_prepare_iff:
  "main_prepare E = Inr ((sb, mp, logd, filesd), tr0) \<longleftrightarrow>
     (\<exists>tr1 size_needed tr2 tr3.
        log_system_info E [] = (True, tr1) \<and>
        sys_platform E = ''darwin'' \<and>
        selected_paths E \<noteq> [] \<and>
        estimate_size_needed E tr1 (selected_paths E) = Inr size_needed \<and>
        chosen_destination E \<noteq> [] \<and>
        create_sparsebundle E tr1 (chosen_destination E)
          (''ForensicData_'' @ now_strftime E tr1) size_needed = ((True, sb), tr2) \<and>
        mount_sparsebundle E tr2 sb = ((True, Some mp), tr3) \<and>
        logd = path_join mp ''forensic_logs'' \<and>
        filesd = path_join mp ''copied_files'' \<and>
        makedirs_ok E tr3 logd \<and>
        copy2_ok E (tr3 @ [Makedirs logd]) (log_file E) logd \<and>
        makedirs_ok E (tr3 @ [Makedirs logd, Copy2 (log_file E) logd]) filesd \<and>
        tr0 = tr3 @ [Makedirs logd, Copy2 (log_file E) logd, Makedirs filesd])"
  by (auto simp: main_prepare_def Let_def split: prod.splits sum.splits if_splits option.splits)

lemma copy_with_metadata_returns:
  "fst (copy_with_metadata E tr p d records) \<longleftrightarrow>
      (if isfile E tr p then
         fst (fst (execute_command E tr [''ditto'', ''-v'', p, d])) \<and>
         calculate_hash E (tr @ [Exec [''ditto'', ''-v'', p, d]]) p =
           calculate_hash E (tr @ [Exec [''ditto'', ''-v'', p, d]])
             (if isdir E (tr @ [Exec [''ditto'', ''-v'', p, d]]) d
              then path_join d (basename p) else d)
       else if isdir E tr p then
         makedirs_ok E tr (path_join d (basename p)) \<and>
         fst (fst (execute_command E (tr @ [Makedirs (path_join d (basename p))])
           [''ditto'', ''-v'', p, path_join d (basename p)]))
       else True)"
proof -
  have trace: "snd (execute_command E t c) = t @ [Exec c]" for t c
    by (rule execute_command_trace)
  show ?thesis
  proof (cases "isfile E tr p")
    case True
    obtain success out tr1 where exec:
      "execute_command E tr [''ditto'', ''-v'', p, d] = ((success, out), tr1)"
      by (cases "execute_command E tr [''ditto'', ''-v'', p, d]") auto
    with trace [of tr "[''ditto'', ''-v'', p, d]"]
    have "tr1 = tr @ [Exec [''ditto'', ''-v'', p, d]]" by simp
    with True exec show ?thesis by (auto simp: copy_with_metadata_def Let_def)
  next
    case False
    let ?dest = "path_join d (basename p)"
    obtain success out tr2 where exec:
      "execute_command E (tr @ [Makedirs ?dest]) [''ditto'', ''-v'', p, ?dest] =
         ((success, out), tr2)"
      by (cases "execute_command E (tr @ [Makedirs ?dest]) [''ditto'', ''-v'', p, ?dest]") auto
    with False show ?thesis by (auto simp: copy_with_metadata_def Let_def)
  qed
qed

lemma exit_status_by_stage:
  "(fst (main E) = 0 \<or> fst (main E) = 1) \<and>
   (fst (main E) = 0 \<longleftrightarrow>
      (\<exists>sb mp logd filesd tr0 hash_log tr4 tr5 tr6.
         main_prepare E = Inr ((sb, mp, logd, filesd), tr0) \<and>
         (\<forall>r\<in>set (copy_results E tr0 filesd (selected_paths E) []). fst r) \<and>
         snd (last (copy_results E tr0 filesd (selected_paths E) [])) = (hash_log, tr4) \<and>
         (\<forall>entry\<in>set hash_log. sha256_source entry = sha256_destination entry) \<and>
         create_verification_report E tr4 hash_log logd sb = (True, tr5) \<and>
         unmount_sparsebundle E tr5 mp = (True, tr6)))"
proof (cases "main_prepare E")
  case (Inl early)
  obtain status tr where early: "early = (status, tr)" by (cases early)
  with Inl have "status = 1" using main_prepare_early by blast
  with Inl early show ?thesis by (simp add: main_def)
next
  case (Inr ready)
  obtain sb mp logd filesd tr0 where ready: "ready = ((sb, mp, logd, filesd), tr0)"
    by (cases ready) auto
  have prep: "main_prepare E = Inr ((sb, mp, logd, filesd), tr0)" using Inr ready by simp
  have sel: "selected_paths E \<noteq> []" using main_prepare_done [OF prep] by simp
  let ?results = "copy_results E tr0 filesd (selected_paths E) []"
  obtain hash_log tr4 where final: "snd (last ?results) = (hash_log, tr4)"
    by (cases "snd (last ?results)") auto
  have loop: "copy_all E tr0 filesd (selected_paths E) [] True =
      (\<forall>r\<in>set ?results. fst r, hash_log, tr4)"
    using copy_all_results_nonempty [OF sel, of E tr0 filesd "[]"] final by simp
  obtain returned tr5 where rep: "create_verification_report E tr4 hash_log logd sb = (returned, tr5)"
    by (cases "create_verification_report E tr4 hash_log logd sb") auto
  obtain unmounted tr6 where un: "unmount_sparsebundle E tr5 mp = (unmounted, tr6)"
    by (cases "unmount_sparsebundle E tr5 mp") auto
  have status: "fst (main E) =
      (if returned \<and> unmounted \<and> (\<forall>r\<in>set ?results. fst r) then 0 else 1)"
    using main_unfold [OF prep loop] rep un by (simp add: main_finish_status)
  have matches: "\<forall>r\<in>set ?results. fst r \<Longrightarrow>
      \<forall>entry\<in>set hash_log. sha256_source entry = sha256_destination entry"
    using copy_all_matches [of E tr0 filesd "selected_paths E" "[]" True hash_log tr4] loop
    by simp
  show ?thesis
  proof (cases "returned \<and> unmounted \<and> (\<forall>r\<in>set ?results. fst r)")
    case True
    with status have "fst (main E) = 0" by simp
    moreover have "\<forall>entry\<in>set hash_log. sha256_source entry = sha256_destination entry"
      using True matches by simp
    ultimately show ?thesis using prep final rep un True by auto
  next
    case False
    with status have "fst (main E) = 1" by simp
    then show ?thesis using prep final rep un False by auto
  qed
qed





subsection \<open>Floating-point arithmetic of the size estimate\<close>

lemma float_1_1_value: "float_1_1 = Finite 4953959590107546 (- 52)"
  by (simp add: float_1_1_def to_double_def ilog2_def round_half_even_def compute_floorlog)

lemma round_half_even_ge: "num div den \<le> round_half_even num den"
  by (simp add: round_half_even_def Let_def)

lemma round_half_even_exact: "den dvd num \<Longrightarrow> round_half_even num den = num div den"
  by (auto simp: round_half_even_def Let_def)

lemma ilog2_upper:
  assumes num: "0 < num" and den: "0 < den" and less: "num < den * 2 ^ k"
  shows "ilog2 num den < int k"
proof -
  let ?fn = "floorlog 2 num" and ?fd = "floorlog 2 den"
  have bn: "2 ^ (?fn - 1) \<le> num" using floorlog_bounds [of num 2] num by simp
  have bd: "den < 2 ^ ?fd" using floorlog_bounds [of den 2] den by simp
  have "(2::nat) ^ (?fn - 1) < 2 ^ ?fd * 2 ^ k"
  proof -
    have "den * 2 ^ k < 2 ^ ?fd * 2 ^ k" using bd by simp
    with bn less show ?thesis by linarith
  qed
  then have "(2::nat) ^ (?fn - 1) < 2 ^ (?fd + k)" by (simp add: power_add)
  then have "?fn - 1 < ?fd + k" by (simp add: power_strict_increasing_iff)
  then have d: "int ?fn - int ?fd \<le> int k" by linarith
  show ?thesis
  proof (cases "int ?fn - int ?fd = int k")
    case True
    then have "nat (int ?fn - int ?fd) = k" by simp
    with True less have "\<not> den * 2 ^ nat (int ?fn - int ?fd) \<le> num" by simp
    with True show ?thesis by (simp add: ilog2_def Let_def)
  next
    case False
    with d have "int ?fn - int ?fd < int k" by simp
    then show ?thesis by (simp add: ilog2_def Let_def)
  qed
qed

lemma to_double_below:
  assumes num: "0 < num" and den: "0 < den" and less: "num < den * 2 ^ j" and j: "j \<le> 53"
  shows "\<exists>k. to_double num den = Finite (round_half_even (num * 2 ^ k) den) (- int k) \<and> 53 \<le> k + j"
proof -
  define e where "e = max (ilog2 num den) (- 1022) - 52"
  have "ilog2 num den < int j" by (rule ilog2_upper [OF num den less])
  with j have e: "e \<le> int j - 53" by (simp add: e_def)
  with j have e0: "e \<le> 0" by simp
  define k where "k = nat (- e)"
  have ek: "e = - int k" using e0 by (simp add: k_def)
  have kj: "53 \<le> k + j" using e by (simp add: k_def)
  have "to_double num den = Finite (round_half_even (num * 2 ^ k) den) (- int k)"
  proof (cases "e = 0")
    case True
    then have "k = 0" by (simp add: k_def)
    with True num show ?thesis
      unfolding to_double_def Let_def e_def [symmetric] by simp
  next
    case False
    with e0 have "e < 0" by simp
    with num ek show ?thesis
      unfolding to_double_def Let_def e_def [symmetric] by (simp add: k_def)
  qed
  with kj show ?thesis by blast
qed

lemma float_1_1_bound: "11 * 2 ^ 52 \<le> 10 * (4953959590107546::nat)"
  by simp

lemma size_mb_of_zero: "size_mb_of 0 = Inr 100"
  by (simp add: size_mb_of_def py_truediv_def float_1_1_value to_double_def)

lemma size_mb_of_lower:
  assumes small: "t < 2 ^ 53"
  shows "\<exists>n. size_mb_of t = Inr (max n 100) \<and> int (11 * t div (10 * 2 ^ 20)) \<le> n"
proof (cases "t = 0")
  case True
  then have "size_mb_of t = Inr (max 100 100) \<and> int (11 * t div (10 * 2 ^ 20)) \<le> 100"
    by (simp add: size_mb_of_zero)
  then show ?thesis by blast
next
  case False
  then have t: "0 < t" by simp
  let ?C = "4953959590107546 :: nat"
  let ?N = "11 * t div (10 * 2 ^ 20)"
  \<comment> \<open>the division is exact\<close>
  have "t < 2 ^ 20 * 2 ^ 33" using small by simp
  from to_double_below [OF t _ this]
  obtain k1 where q: "to_double t (2 ^ 20) = Finite (round_half_even (t * 2 ^ k1) (2 ^ 20)) (- int k1)"
    and k1: "53 \<le> k1 + 33" by auto
  define k' where "k' = k1 - 20"
  have k1': "k1 = 20 + k'" using k1 by (simp add: k'_def)
  define m1 where "m1 = t * 2 ^ k'"
  have "round_half_even (t * 2 ^ k1) (2 ^ 20) = t * 2 ^ k1 div 2 ^ 20"
    by (rule round_half_even_exact) (simp add: k1' power_add)
  also have "\<dots> = m1" by (simp add: k1' power_add m1_def)
  finally have q': "to_double t (2 ^ 20) = Finite m1 (- int k1)" using q by simp
  then have div: "py_truediv t (1024 * 1024) = Inr (Finite m1 (- int k1))"
    by (simp add: py_truediv_def)
  \<comment> \<open>the product is rounded on a grid that holds the integers\<close>
  have m1_pos: "0 < m1 * ?C" using t by (simp add: m1_def)
  have "m1 < 2 ^ 53 * 2 ^ k'" using small by (simp add: m1_def)
  moreover have "?C < 2 ^ 52 * 2" by simp
  ultimately have "m1 * ?C < (2 ^ 53 * 2 ^ k') * (2 ^ 52 * 2)"
    by (rule mult_strict_mono) simp_all
  also have "\<dots> \<le> 2 ^ (k1 + 52) * 2 ^ 53" by (simp add: k1' power_add)
  finally have below: "m1 * ?C < 2 ^ (k1 + 52) * 2 ^ 53" .
  from to_double_below [OF m1_pos _ below]
  obtain k2 where p: "to_double (m1 * ?C) (2 ^ (k1 + 52)) =
      Finite (round_half_even (m1 * ?C * 2 ^ k2) (2 ^ (k1 + 52))) (- int k2)" by auto
  define m2 where "m2 = round_half_even (m1 * ?C * 2 ^ k2) (2 ^ (k1 + 52))"
  have "nat (52 + int k1) = k1 + 52" by simp
  then have mul: "py_mul (Finite m1 (- int k1)) float_1_1 = Finite m2 (- int k2)"
    using p by (simp add: float_1_1_value m2_def Let_def)
  have int: "py_int (Finite m2 (- int k2)) = Inr (int (m2 div 2 ^ k2))"
    by (cases "k2 = 0") simp_all
  have result: "size_mb_of t = Inr (max (int (m2 div 2 ^ k2)) 100)"
    using div mul int by (simp add: size_mb_of_def)
  \<comment> \<open>the bound\<close>
  have "?N * (10 * 2 ^ 20) \<le> 11 * t" by simp
  then have "?N * (10 * 2 ^ 20) * 2 ^ 52 \<le> 11 * t * 2 ^ 52" by (rule mult_right_mono) simp
  also have "\<dots> = t * (11 * 2 ^ 52)" by simp
  also have "\<dots> \<le> t * (10 * ?C)" by (rule mult_left_mono [OF float_1_1_bound]) simp
  finally have "10 * (?N * 2 ^ 72) \<le> 10 * (t * ?C)" by simp
  then have "?N * 2 ^ 72 \<le> t * ?C" by simp
  then have "?N * 2 ^ 72 * (2 ^ k' * 2 ^ k2) \<le> t * ?C * (2 ^ k' * 2 ^ k2)"
    by (rule mult_right_mono) simp
  then have "?N * 2 ^ k2 * 2 ^ (k1 + 52) \<le> m1 * ?C * 2 ^ k2"
    by (simp add: k1' power_add m1_def mult_ac)
  then have "?N * 2 ^ k2 \<le> m1 * ?C * 2 ^ k2 div 2 ^ (k1 + 52)"
    by (simp add: less_eq_div_iff_mult_less_eq)
  also have "\<dots> \<le> m2" unfolding m2_def by (rule round_half_even_ge)
  finally have "?N \<le> m2 div 2 ^ k2" by (simp add: less_eq_div_iff_mult_less_eq)
  with result show ?thesis by auto
qed

text \<open>
  When every size can be read, the loop of \<open>estimate_size_needed\<close> adds up the sizes of
  the reachable files.
\<close>

lemma sum_filenames_readable:
  assumes "\<forall>f\<in>set (filter (path_exists E tr) (map (path_join dirpath) filenames)).
     getsize E tr f \<noteq> None"
  shows "sum_filenames E tr dirpath filenames tot =
     (tot + sum_list (map (size_or_zero E tr)
        (filter (path_exists E tr) (map (path_join dirpath) filenames))), False)"
  using assms
  by (induction filenames arbitrary: tot) (auto simp: Let_def size_or_zero_def)

lemma sum_walk_readable:
  assumes "\<forall>f\<in>set (concat (map (\<lambda>(dirpath, dirnames, filenames).
       filter (path_exists E tr) (map (path_join dirpath) filenames)) triples)).
     getsize E tr f \<noteq> None"
  shows "sum_walk E tr triples tot =
     (tot + sum_list (map (size_or_zero E tr)
        (concat (map (\<lambda>(dirpath, dirnames, filenames).
           filter (path_exists E tr) (map (path_join dirpath) filenames)) triples))), False)"
  using assms
proof (induction triples arbitrary: tot)
  case Nil
  then show ?case by simp
next
  case (Cons t triples)
  obtain dirpath dirnames filenames where t: "t = (dirpath, dirnames, filenames)"
    by (cases t) auto
  have here: "\<forall>f\<in>set (filter (path_exists E tr) (map (path_join dirpath) filenames)).
     getsize E tr f \<noteq> None" using Cons.prems t by auto
  have rest: "\<forall>f\<in>set (concat (map (\<lambda>(dirpath, dirnames, filenames).
       filter (path_exists E tr) (map (path_join dirpath) filenames)) triples)).
     getsize E tr f \<noteq> None" using Cons.prems by auto
  show ?case
    using sum_filenames_readable [OF here] Cons.IH [OF rest] t by simp
qed

lemma total_size_readable:
  assumes "\<forall>f\<in>set (reachable_files E tr paths). getsize E tr f \<noteq> None"
  shows "total_size E tr paths tot =
     tot + sum_list (map (size_or_zero E tr) (reachable_files E tr paths))"
  using assms
proof (induction paths arbitrary: tot)
  case Nil
  then show ?case by (simp add: reachable_files_def)
next
  case (Cons p paths)
  have rest: "\<forall>f\<in>set (reachable_files E tr paths). getsize E tr f \<noteq> None"
    using Cons.prems by (simp add: reachable_files_def)
  note IH = Cons.IH [OF rest]
  show ?case
  proof (cases "isfile E tr p")
    case True
    with Cons.prems obtain n where "getsize E tr p = Some n"
      by (auto simp: reachable_files_def files_under_def)
    with True IH show ?thesis
      by (simp add: reachable_files_def files_under_def size_or_zero_def)
  next
    case False
    show ?thesis
    proof (cases "isdir E tr p")
      case True
      with False Cons.prems have "\<forall>f\<in>set (concat (map (\<lambda>(dirpath, dirnames, filenames).
           filter (path_exists E tr) (map (path_join dirpath) filenames)) (walk E tr p))).
         getsize E tr f \<noteq> None"
        by (simp add: reachable_files_def files_under_def)
      from sum_walk_readable [OF this] True False IH show ?thesis
        by (simp add: reachable_files_def files_under_def)
    next
      case notdir: False
      with False IH show ?thesis by (simp add: reachable_files_def files_under_def)
    qed
  qed
qed

text \<open>
  Far beyond the range of \<open>size_mb_of_lower\<close> the quotient is rounded before it is
  multiplied, and the result can fall below the rounded-down exact value.
\<close>

lemma size_mb_of_beyond:
  "size_mb_of 11796746436518536535436 = Inr 12375279503031148 \<and>
   (11 * 11796746436518536535436 div (10 * 2 ^ 20) :: nat) = 12375279503031149"
  by (simp add: size_mb_of_def py_truediv_def float_1_1_value to_double_def ilog2_def
      round_half_even_def compute_floorlog)

subsection \<open>Evaluation in the concrete worlds\<close>

lemma size_mb_of_1024: "size_mb_of 1024 = Inr 100"
  by (simp add: size_mb_of_def py_truediv_def float_1_1_value to_double_def ilog2_def
      round_half_even_def compute_floorlog)


lemma str_int_100: "str_int 100 = ''100''"
  by (simp add: str_int_def str_nat.simps)

lemma world_simps [simp]:
  "sys_platform (world sel run digest writable) = ''darwin''"
  "selected_paths (world sel run digest writable) = sel"
  "chosen_destination (world sel run digest writable) = ''/cases''"
  "log_file (world sel run digest writable) = ''/Users/examiner/forensic_logs/run.log''"
  "now_isoformat (world sel run digest writable) tr = ''2024-05-01T10:00:00''"
  "now_strftime (world sel run digest writable) tr = ''20240501_100000''"
  "isfile (world sel run digest writable) tr p = (p \<in> set sel)"
  "isdir (world sel run digest writable) tr p = (p = ''/Volumes/ForensicData/copied_files'')"
  "path_exists (world sel run digest writable) tr p = False"
  "getsize (world sel run digest writable) tr p = Some 1024"
  "walk (world sel run digest writable) tr p = []"
  "sha256_of (world sel run digest writable) tr = digest"
  "popen (world sel run digest writable) tr = run"
  "check_output (world sel run digest writable) tr cmd = Output ''examiner\<newline>''"
  "makedirs_ok (world sel run digest writable) tr p = True"
  "copy2_ok (world sel run digest writable) tr src dst = True"
  "open_write_ok (world sel run digest writable) tr = writable"
  by (simp_all add: world_def)

lemma main_prepare_world:
  assumes "sel \<noteq> []"
    and "size_mb_of (total_size (world sel run digest writable) (snd (log_system_info (world sel run digest writable) [])) sel 0) = Inr 100"
    and "run [''hdiutil'', ''create'', ''-size'', ''100m'', ''-fs'', ''HFS+'',
        ''-volname'', ''ForensicData_20240501_100000'', ''-type'',
        ''SPARSEBUNDLE'', ''-encryption'', ''AES-256'',
        ''/cases/ForensicData_20240501_100000.sparsebundle''] = Exited 0 [] []"
    and "run [''hdiutil'', ''attach'',
        ''/cases/ForensicData_20240501_100000.sparsebundle'',
        ''-mountpoint'', ''/Volumes/ForensicData''] = Exited 0 [] []"
  shows "main_prepare (world sel run digest writable) =
     Inr ((''/cases/ForensicData_20240501_100000.sparsebundle'', ''/Volumes/ForensicData'',
           ''/Volumes/ForensicData/forensic_logs'', ''/Volumes/ForensicData/copied_files''),
          prepared_trace)"
  using assms
  by (simp add: main_prepare_def log_system_info_def estimate_size_needed_def
     create_sparsebundle_def mount_sparsebundle_def execute_command_def create_command_def
     str_int_100 path_join_def Let_def prepared_trace_def)




lemma report_world:
  "create_verification_report (world sel run digest writable) tr hash_log
      ''/Volumes/ForensicData/forensic_logs'' ''/cases/ForensicData_20240501_100000.sparsebundle'' =
   (True,
    if \<not> writable plist_path \<or> \<not> list_all plist_entry hash_log
    then tr @ report_queries @ [WriteFailed plist_path]
    else if \<not> writable txt_path
    then tr @ report_queries @ [WritePlist plist_path (report_of hash_log), WriteFailed txt_path]
    else tr @ report_queries @ [WritePlist plist_path (report_of hash_log),
           WriteText txt_path (report_text (report_of hash_log) hash_log)])"
  by (simp add: create_verification_report_def write_reports_def
      plist_supported_def plist_string_def path_join_def strip_def is_space_def Let_def
      report_queries_def report_of_def plist_path_def txt_path_def)

lemma main_finish_world:
  assumes "run [''hdiutil'', ''detach'', ''/Volumes/ForensicData'', ''-force''] = Exited 0 [] []"
  shows "main_finish (world sel run digest writable) tr hash_log ok
      ''/Volumes/ForensicData/forensic_logs'' ''/cases/ForensicData_20240501_100000.sparsebundle''
      ''/Volumes/ForensicData'' =
    (if ok then 0 else 1,
     snd (create_verification_report (world sel run digest writable) tr hash_log
      ''/Volumes/ForensicData/forensic_logs'' ''/cases/ForensicData_20240501_100000.sparsebundle'')
     @ [unmount])"
  using assms
  by (simp add: main_finish_def report_world unmount_sparsebundle_def unmount_command_def
      execute_command_def unmount_def Let_def)

lemma plist_entry_copied: "plist_entry (copied ''/evidence/a.txt'' ''ab12'' ''ab12'')"
  "plist_entry (copied ''/evidence/b.txt'' ''ab12'' ''ab12'')"
  "plist_entry (copied ''/evidence/b.txt'' ''ab12'' ''ff00'')"
  "plist_entry (copied ''/evidence/c.txt'' ''ab12'' ''ab12'')"
  by (simp_all add: plist_entry_def plist_string_def copied_def)

lemma plist_entry_unhashed: "\<not> plist_entry (unhashed p)"
  by (simp add: plist_entry_def unhashed_def)

lemma prepare_one_file:
  "main_prepare (world [''/evidence/a.txt''] all_succeed digest writable) =
     Inr ((''/cases/ForensicData_20240501_100000.sparsebundle'', ''/Volumes/ForensicData'',
           ''/Volumes/ForensicData/forensic_logs'', ''/Volumes/ForensicData/copied_files''),
          prepared_trace)"
  by (rule main_prepare_world) (simp_all add: size_mb_of_1024 all_succeed_def)

lemma copy_one_file:
  "copy_all (world [''/evidence/a.txt''] all_succeed same_digest writable)
     prepared_trace ''/Volumes/ForensicData/copied_files'' [''/evidence/a.txt''] [] True =
   (True, [copied ''/evidence/a.txt'' ''ab12'' ''ab12''], prepared_trace @ [ditto ''/evidence/a.txt''])"
  by (simp add: copy_with_metadata_def execute_command_def all_succeed_def
      calculate_hash_def same_digest_def copied_def ditto_def Let_def)

lemma copy_one_file_unhashed:
  "copy_all (world [''/evidence/a.txt''] all_succeed (\<lambda>p. None) writable)
     prepared_trace ''/Volumes/ForensicData/copied_files'' [''/evidence/a.txt''] [] True =
   (True, [unhashed ''/evidence/a.txt''], prepared_trace @ [ditto ''/evidence/a.txt''])"
  by (simp add: copy_with_metadata_def execute_command_def all_succeed_def
      calculate_hash_def unhashed_def ditto_def Let_def)

lemma main_one_file:
  "main (world [''/evidence/a.txt''] all_succeed same_digest writable) =
     (0, snd (create_verification_report (world [''/evidence/a.txt''] all_succeed same_digest writable)
           (prepared_trace @ [ditto ''/evidence/a.txt''])
           [copied ''/evidence/a.txt'' ''ab12'' ''ab12'']
           ''/Volumes/ForensicData/forensic_logs''
           ''/cases/ForensicData_20240501_100000.sparsebundle'') @ [unmount])"
  using main_unfold [OF prepare_one_file, of same_digest writable True _ _] copy_one_file [of writable]
  by (simp add: main_finish_world all_succeed_def)

lemma size_mb_of_101_MiB: "size_mb_of 105906176 = Inr 111"
  by (simp add: size_mb_of_def py_truediv_def float_1_1_value to_double_def ilog2_def
      round_half_even_def compute_floorlog)

lemma case_folder_files:
  "reachable_files case_folder [] [''/evidence/disk.img'', ''/evidence/docs'', ''/evidence/gone''] =
     [''/evidence/disk.img'', ''/evidence/docs/a.txt'', ''/evidence/docs/mail/inbox.mbox'']"
  by (simp add: case_folder_def reachable_files_def files_under_def path_join_def)

text \<open>
  When a size cannot be read, the rest of that selected path is skipped: here a file of
  1 GiB that follows an unreadable entry is left out of the estimate.
\<close>

lemma unreadable_entry_skips_rest:
  "total_bytes unreadable_entry [] [''/evidence/docs''] = 1073741824 \<and>
   estimate_size_needed unreadable_entry [] [''/evidence/docs''] = Inr 100 \<and>
   \<lfloor>1.1 * real (1073741824 :: nat) / (1024 * 1024)\<rfloor> = 1126"
proof -
  have "\<lfloor>1.1 * real (1073741824 :: nat) / (1024 * 1024)\<rfloor> = 1126"
    by (rule floor_unique) simp_all
  then show ?thesis
    by (simp add: unreadable_entry_def total_bytes_def reachable_files_def files_under_def
        path_join_def size_or_zero_def estimate_size_needed_def size_mb_of_zero)
qed

subsection \<open>The size estimate\<close>

text \<open>
  C1 as stated fails. For one selected file of 101 MiB (105906176 bytes) the estimate is
  111, and \<open>\<lceil>1.1 \<times> 101\<rceil> = 112\<close>: \<^verbatim>\<open>int()\<close> rounds towards zero, not up.
\<close>

theorem estimate_below_ceiling:
  "total_bytes one_big_file [] [''/evidence/disk.img''] = 105906176 \<and>
   total_size one_big_file [] [''/evidence/disk.img''] 0 = 105906176 \<and>
   estimate_size_needed one_big_file [] [''/evidence/disk.img''] = Inr 111 \<and>
   \<lceil>1.1 * real 105906176 / (1024 * 1024)\<rceil> = 112"
proof -
  have "\<lceil>1.1 * real 105906176 / (1024 * 1024)\<rceil> = 112"
    by (rule ceiling_unique) simp_all
  then show ?thesis
    by (simp add: one_big_file_def estimate_size_needed_def size_mb_of_101_MiB
        total_bytes_def reachable_files_def files_under_def size_or_zero_def)
qed

text \<open>
  C1 as amended. \<open>total_bytes\<close> is the sum of the sizes of all regular files reachable
  under the selected paths (zero when there is none). When the size of every reachable
  file can be read and the total is below \<open>2\<^sup>5\<^sup>3\<close> bytes, \<open>estimate_size_needed\<close> returns,
  and the value it returns is at least 100 and at least
  \<open>\<lfloor>1.1 \<times> total_bytes / 1 MiB\<rfloor>\<close>.
\<close>

theorem estimate_size_needed_lower_bounds:
  assumes readable: "\<forall>f\<in>set (reachable_files E tr paths). getsize E tr f \<noteq> None"
    and small: "total_bytes E tr paths < 2 ^ 53"
  shows "\<exists>size_mb. estimate_size_needed E tr paths = Inr size_mb \<and> 100 \<le> size_mb \<and>
    \<lfloor>1.1 * real (total_bytes E tr paths) / (1024 * 1024)\<rfloor> \<le> size_mb"
proof -
  let ?t = "total_bytes E tr paths"
  have sum: "total_size E tr paths 0 = ?t"
    using total_size_readable [OF readable, of 0] by (simp add: total_bytes_def)
  from size_mb_of_lower [OF small]
  obtain n where n: "size_mb_of ?t = Inr (max n 100)" "int (11 * ?t div (10 * 2 ^ 20)) \<le> n"
    by blast
  have "1.1 * real ?t / (1024 * 1024) = real (11 * ?t) / real (10 * 2 ^ 20)" by simp
  then have "\<lfloor>1.1 * real ?t / (1024 * 1024)\<rfloor> = int (11 * ?t div (10 * 2 ^ 20))"
    by (simp only: floor_divide_of_nat_eq)
  with n sum show ?thesis by (auto simp: estimate_size_needed_def)
qed

theorem estimate_size_needed_lower_bounds_witness:
  "reachable_files case_folder [] [''/evidence/disk.img'', ''/evidence/docs'', ''/evidence/gone''] =
     [''/evidence/disk.img'', ''/evidence/docs/a.txt'', ''/evidence/docs/mail/inbox.mbox''] \<and>
   map (getsize case_folder [])
     [''/evidence/disk.img'', ''/evidence/docs/a.txt'', ''/evidence/docs/mail/inbox.mbox''] =
     [Some 104857600, Some 524288, Some 524288] \<and>
   total_bytes case_folder [] [''/evidence/disk.img'', ''/evidence/docs'', ''/evidence/gone'']
     < 2 ^ 53 \<and>
   total_bytes case_folder [] [''/evidence/disk.img'', ''/evidence/docs'', ''/evidence/gone'']
     = 105906176 \<and>
   estimate_size_needed case_folder []
     [''/evidence/disk.img'', ''/evidence/docs'', ''/evidence/gone''] = Inr 111 \<and>
   (\<exists>size_mb. estimate_size_needed case_folder []
        [''/evidence/disk.img'', ''/evidence/docs'', ''/evidence/gone''] = Inr size_mb \<and>
      100 \<le> size_mb \<and>
      \<lfloor>1.1 * real (total_bytes case_folder []
          [''/evidence/disk.img'', ''/evidence/docs'', ''/evidence/gone'']) / (1024 * 1024)\<rfloor>
        \<le> size_mb)"
proof -
  let ?sel = "[''/evidence/disk.img'', ''/evidence/docs'', ''/evidence/gone'']"
  have readable: "\<forall>f\<in>set (reachable_files case_folder [] ?sel). getsize case_folder [] f \<noteq> None"
    by (simp add: case_folder_files) (simp add: case_folder_def)
  have total: "total_bytes case_folder [] ?sel = 105906176"
    by (simp add: total_bytes_def case_folder_files size_or_zero_def) (simp add: case_folder_def)
  have small: "total_bytes case_folder [] ?sel < 2 ^ 53" by (simp add: total)
  have est: "estimate_size_needed case_folder [] ?sel = Inr 111"
    by (simp add: estimate_size_needed_def case_folder_def path_join_def size_mb_of_101_MiB)
  have sizes: "map (getsize case_folder [])
      [''/evidence/disk.img'', ''/evidence/docs/a.txt'', ''/evidence/docs/mail/inbox.mbox''] =
      [Some 104857600, Some 524288, Some 524288]"
    by (simp add: case_folder_def)
  note bound = estimate_size_needed_lower_bounds [OF readable small]
  show ?thesis by (intro conjI case_folder_files sizes small total est bound)
qed

subsection \<open>Partial failure\<close>




subsection \<open>Exit status\<close>

text \<open>
  C3 as stated fails. One regular file is selected, every command succeeds and the
  digests agree, but the report files cannot be opened for writing:
  \<open>create_verification_report\<close> catches the exception and returns, and the run ends with
  exit status 0 although no report was written.
\<close>

theorem unwritten_report_exits_zero:
  "main (world [''/evidence/a.txt''] all_succeed same_digest (\<lambda>p. False)) =
     (0, prepared_trace @ [ditto ''/evidence/a.txt''] @ report_queries @
         [WriteFailed plist_path, unmount])"
  by (simp add: main_one_file report_world)

text \<open>
  C3 as amended. The exit status is 0 or 1. It is 0 exactly when all of this holds:
  \<open>log_system_info\<close> returns, the platform is \<^verbatim>\<open>darwin\<close>, the selection is not empty, the
  size estimate is computed, a destination is chosen, \<open>create_sparsebundle\<close> and
  \<open>mount_sparsebundle\<close> succeed, the two directories in the container are made and the
  log file is copied without an exception, every call of \<open>copy_with_metadata\<close> that the
  loop makes returns \<open>True\<close> (then every record of the hash log has equal digests),
  \<open>create_verification_report\<close> returns and \<open>unmount_sparsebundle\<close> succeeds. In every
  other case it is 1. Whether the report files were written does not enter the status.
  A call of \<open>copy_with_metadata\<close> returns \<open>True\<close> exactly when, for a regular file, the
  copy command succeeds and the two digests are equal; for a directory, \<^verbatim>\<open>os.makedirs\<close>
  raises nothing and the copy command succeeds; for any other path, always.
\<close>

theorem exit_status:
  "(fst (main E) = 0 \<or> fst (main E) = 1) \<and>
   (fst (main E) = 0 \<longleftrightarrow>
      (\<exists>sb mp logd filesd tr0 hash_log tr4 tr5 tr6.
         (\<exists>tr1 size_needed tr2 tr3.
            log_system_info E [] = (True, tr1) \<and>
            sys_platform E = ''darwin'' \<and>
            selected_paths E \<noteq> [] \<and>
            estimate_size_needed E tr1 (selected_paths E) = Inr size_needed \<and>
            chosen_destination E \<noteq> [] \<and>
            create_sparsebundle E tr1 (chosen_destination E)
              (''ForensicData_'' @ now_strftime E tr1) size_needed = ((True, sb), tr2) \<and>
            mount_sparsebundle E tr2 sb = ((True, Some mp), tr3) \<and>
            logd = path_join mp ''forensic_logs'' \<and>
            filesd = path_join mp ''copied_files'' \<and>
            makedirs_ok E tr3 logd \<and>
            copy2_ok E (tr3 @ [Makedirs logd]) (log_file E) logd \<and>
            makedirs_ok E (tr3 @ [Makedirs logd, Copy2 (log_file E) logd]) filesd \<and>
            tr0 = tr3 @ [Makedirs logd, Copy2 (log_file E) logd, Makedirs filesd]) \<and>
         (\<forall>r\<in>set (copy_results E tr0 filesd (selected_paths E) []). fst r) \<and>
         snd (last (copy_results E tr0 filesd (selected_paths E) [])) = (hash_log, tr4) \<and>
         (\<forall>entry\<in>set hash_log. sha256_source entry = sha256_destination entry) \<and>
         create_verification_report E tr4 hash_log logd sb = (True, tr5) \<and>
         unmount_sparsebundle E tr5 mp = (True, tr6))) \<and>
   (fst (copy_with_metadata E tr p d records) \<longleftrightarrow>
      (if isfile E tr p then
         fst (fst (execute_command E tr [''ditto'', ''-v'', p, d])) \<and>
         calculate_hash E (tr @ [Exec [''ditto'', ''-v'', p, d]]) p =
           calculate_hash E (tr @ [Exec [''ditto'', ''-v'', p, d]])
             (if isdir E (tr @ [Exec [''ditto'', ''-v'', p, d]]) d
              then path_join d (basename p) else d)
       else if isdir E tr p then
         makedirs_ok E tr (path_join d (basename p)) \<and>
         fst (fst (execute_command E (tr @ [Makedirs (path_join d (basename p))])
           [''ditto'', ''-v'', p, path_join d (basename p)]))
       else True))"
  using exit_status_by_stage [of E, unfolded main_prepare_iff] copy_with_metadata_returns [of E tr p d records]
  by (intro conjI) (erule conjunct1, erule conjunct2, assumption)

theorem exit_status_witness:
  "fst (main (world [''/evidence/a.txt''] all_succeed same_digest (\<lambda>p. True))) = 0 \<and>
   (\<exists>sb mp logd filesd tr0 hash_log tr4 tr5 tr6.
         (\<exists>tr1 size_needed tr2 tr3.
            log_system_info (world [''/evidence/a.txt''] all_succeed same_digest (\<lambda>p. True)) [] = (True, tr1) \<and>
            sys_platform (world [''/evidence/a.txt''] all_succeed same_digest (\<lambda>p. True)) = ''darwin'' \<and>
            selected_paths (world [''/evidence/a.txt''] all_succeed same_digest (\<lambda>p. True)) \<noteq> [] \<and>
            estimate_size_needed (world [''/evidence/a.txt''] all_succeed same_digest (\<lambda>p. True)) tr1 (selected_paths (world [''/evidence/a.txt''] all_succeed same_digest (\<lambda>p. True))) = Inr size_needed \<and>
            chosen_destination (world [''/evidence/a.txt''] all_succeed same_digest (\<lambda>p. True)) \<noteq> [] \<and>
            create_sparsebundle (world [''/evidence/a.txt''] all_succeed same_digest (\<lambda>p. True)) tr1 (chosen_destination (world [''/evidence/a.txt''] all_succeed same_digest (\<lambda>p. True)))
              (''ForensicData_'' @ now_strftime (world [''/evidence/a.txt''] all_succeed same_digest (\<lambda>p. True)) tr1) size_needed = ((True, sb), tr2) \<and>
            mount_sparsebundle (world [''/evidence/a.txt''] all_succeed same_digest (\<lambda>p. True)) tr2 sb = ((True, Some mp), tr3) \<and>
            logd = path_join mp ''forensic_logs'' \<and>
            filesd = path_join mp ''copied_files'' \<and>
            makedirs_ok (world [''/evidence/a.txt''] all_succeed same_digest (\<lambda>p. True)) tr3 logd \<and>
            copy2_ok (world [''/evidence/a.txt''] all_succeed same_digest (\<lambda>p. True)) (tr3 @ [Makedirs logd]) (log_file (world [''/evidence/a.txt''] all_succeed same_digest (\<lambda>p. True))) logd \<and>
            makedirs_ok (world [''/evidence/a.txt''] all_succeed same_digest (\<lambda>p. True)) (tr3 @ [Makedirs logd, Copy2 (log_file (world [''/evidence/a.txt''] all_succeed same_digest (\<lambda>p. True))) logd]) filesd \<and>
            tr0 = tr3 @ [Makedirs logd, Copy2 (log_file (world [''/evidence/a.txt''] all_succeed same_digest (\<lambda>p. True))) logd, Makedirs filesd]) \<and>
         (\<forall>r\<in>set (copy_results (world [''/evidence/a.txt''] all_succeed same_digest (\<lambda>p. True)) tr0 filesd (selected_paths (world [''/evidence/a.txt''] all_succeed same_digest (\<lambda>p. True))) []). fst r) \<and>
         snd (last (copy_results (world [''/evidence/a.txt''] all_succeed same_digest (\<lambda>p. True)) tr0 filesd (selected_paths (world [''/evidence/a.txt''] all_succeed same_digest (\<lambda>p. True))) [])) = (hash_log, tr4) \<and>
         (\<forall>entry\<in>set hash_log. sha256_source entry = sha256_destination entry) \<and>
         create_verification_report (world [''/evidence/a.txt''] all_succeed same_digest (\<lambda>p. True)) tr4 hash_log logd sb = (True, tr5) \<and>
         unmount_sparsebundle (world [''/evidence/a.txt''] all_succeed same_digest (\<lambda>p. True)) tr5 mp = (True, tr6))"
proof -
  have zero: "fst (main (world [''/evidence/a.txt''] all_succeed same_digest (\<lambda>p. True))) = 0"
    by (simp add: main_one_file)
  note stages = exit_status [of "world [''/evidence/a.txt''] all_succeed same_digest (\<lambda>p. True)", THEN conjunct2, THEN conjunct1, THEN iffD1, OF zero]
  show ?thesis by (intro conjI zero stages)
qed

subsection \<open>Two failed digests\<close>

text \<open>
  When a regular file has been copied and \<open>calculate_hash\<close> gives \<^verbatim>\<open>None\<close> for the source
  and for the copy, \<open>copy_with_metadata\<close> appends a record whose two digests are equal
  (both \<^verbatim>\<open>None\<close>) and returns \<open>True\<close>, and the lines that the loop of
  \<open>create_verification_report\<close> renders for this record read \<^verbatim>\<open>Source SHA256: None\<close>,
  \<^verbatim>\<open>Destination SHA256: None\<close> and \<^verbatim>\<open>Match: True\<close>.
\<close>

lemma unhashed_copy_counts_as_match:
  assumes isf: "isfile E tr source"
    and copied: "execute_command E tr [''ditto'', ''-v'', source, destination] = ((True, output), tr1)"
    and src: "calculate_hash E tr1 source = None"
    and dst: "calculate_hash E tr1
      (if isdir E tr1 destination then path_join destination (basename source) else destination) = None"
  shows "copy_with_metadata E tr source destination hash_log =
      (True,
       hash_log @ [\<lparr>source_path = source, destination_path = destination,
          sha256_source = None, sha256_destination = None, timestamp = now_isoformat E tr1\<rparr>],
       tr1) \<and>
    render_entry \<lparr>source_path = source, destination_path = destination,
          sha256_source = None, sha256_destination = None, timestamp = now_isoformat E tr1\<rparr> =
      ''Source: '' @ source @ ''\<newline>'' @
      ''Destination: '' @ destination @ ''\<newline>'' @
      ''Source SHA256: None\<newline>'' @
      ''Destination SHA256: None\<newline>'' @
      ''Match: True\<newline>'' @
      ''Timestamp: '' @ now_isoformat E tr1 @ ''\<newline>\<newline>''"
  using copy_with_metadata_file_copied [OF isf copied, of hash_log] src dst
  by (simp add: render_entry_def str_bool_def)

lemma unhashed_copy_counts_as_match_example:
  "isfile (world [''/evidence/a.txt''] all_succeed (\<lambda>p. None) (\<lambda>p. True)) prepared_trace
     ''/evidence/a.txt'' \<and>
   execute_command (world [''/evidence/a.txt''] all_succeed (\<lambda>p. None) (\<lambda>p. True)) prepared_trace
     [''ditto'', ''-v'', ''/evidence/a.txt'', ''/Volumes/ForensicData/copied_files''] =
     ((True, []), prepared_trace @ [ditto ''/evidence/a.txt'']) \<and>
   calculate_hash (world [''/evidence/a.txt''] all_succeed (\<lambda>p. None) (\<lambda>p. True))
     (prepared_trace @ [ditto ''/evidence/a.txt'']) ''/evidence/a.txt'' = None \<and>
   calculate_hash (world [''/evidence/a.txt''] all_succeed (\<lambda>p. None) (\<lambda>p. True))
     (prepared_trace @ [ditto ''/evidence/a.txt''])
     ''/Volumes/ForensicData/copied_files/a.txt'' = None \<and>
   copy_with_metadata (world [''/evidence/a.txt''] all_succeed (\<lambda>p. None) (\<lambda>p. True))
     prepared_trace ''/evidence/a.txt'' ''/Volumes/ForensicData/copied_files'' [] =
     (True, [unhashed ''/evidence/a.txt''], prepared_trace @ [ditto ''/evidence/a.txt'']) \<and>
   render_entry (unhashed ''/evidence/a.txt'') =
     ''Source: /evidence/a.txt\<newline>'' @
     ''Destination: /Volumes/ForensicData/copied_files\<newline>'' @
     ''Source SHA256: None\<newline>'' @
     ''Destination SHA256: None\<newline>'' @
     ''Match: True\<newline>'' @
     ''Timestamp: 2024-05-01T10:00:00\<newline>\<newline>''"
proof -
  let ?W = "world [''/evidence/a.txt''] all_succeed (\<lambda>p. None) (\<lambda>p. True)"
  let ?d = "''/Volumes/ForensicData/copied_files''"
  let ?tr1 = "prepared_trace @ [ditto ''/evidence/a.txt'']"
  have isf: "isfile ?W prepared_trace ''/evidence/a.txt''" by simp
  have copied: "execute_command ?W prepared_trace [''ditto'', ''-v'', ''/evidence/a.txt'', ?d] =
      ((True, []), ?tr1)"
    by (simp add: execute_command_def all_succeed_def ditto_def)
  have src: "calculate_hash ?W ?tr1 ''/evidence/a.txt'' = None"
    by (simp add: calculate_hash_def)
  have dst: "calculate_hash ?W ?tr1
      (if isdir ?W ?tr1 ?d then path_join ?d (basename ''/evidence/a.txt'') else ?d) = None"
    by (simp add: calculate_hash_def)
  have dst': "calculate_hash ?W ?tr1 ''/Volumes/ForensicData/copied_files/a.txt'' = None"
    by (simp add: calculate_hash_def)
  from unhashed_copy_counts_as_match [OF isf copied src dst, of "[]"] isf copied src dst'
  show ?thesis by (simp add: unhashed_def)
qed

text \<open>
  C4. The claim adds that the text report renders \<^verbatim>\<open>Match: True\<close> for such a record. The
  code does not get that far. One regular file is selected and copied, and both digests
  fail: \<open>copy_with_metadata\<close> appends the record with two \<^verbatim>\<open>None\<close> digests and returns
  \<open>True\<close>, and the run exits with status 0; but \<^verbatim>\<open>plistlib.dump\<close> raises \<^verbatim>\<open>TypeError\<close> on
  the \<^verbatim>\<open>None\<close> digests, inside the \<^verbatim>\<open>try\<close> that writes the text report next, the handler
  logs the error, and the run ends with an incomplete plist and no text report.
\<close>

theorem unhashed_copy_writes_no_text_report:
  "copy_with_metadata (world [''/evidence/a.txt''] all_succeed (\<lambda>p. None) (\<lambda>p. True))
     prepared_trace ''/evidence/a.txt'' ''/Volumes/ForensicData/copied_files'' [] =
     (True, [unhashed ''/evidence/a.txt''], prepared_trace @ [ditto ''/evidence/a.txt'']) \<and>
   main (world [''/evidence/a.txt''] all_succeed (\<lambda>p. None) (\<lambda>p. True)) =
     (0, prepared_trace @ [ditto ''/evidence/a.txt''] @ report_queries @
         [WriteFailed plist_path, unmount])"
proof -
  let ?W = "world [''/evidence/a.txt''] all_succeed (\<lambda>p. None) (\<lambda>p. True)"
  have "copy_with_metadata ?W prepared_trace ''/evidence/a.txt''
      ''/Volumes/ForensicData/copied_files'' [] =
     (True, [unhashed ''/evidence/a.txt''], prepared_trace @ [ditto ''/evidence/a.txt''])"
    by (simp add: copy_with_metadata_def execute_command_def all_succeed_def
      calculate_hash_def unhashed_def ditto_def Let_def)
  moreover have "main ?W = (0, prepared_trace @ [ditto ''/evidence/a.txt''] @ report_queries @
         [WriteFailed plist_path, unmount])"
    using main_unfold [OF prepare_one_file, of "\<lambda>p. None" "\<lambda>p. True" True _ _]
      copy_one_file_unhashed [of "\<lambda>p. True"]
    by (simp add: main_finish_world all_succeed_def report_world plist_entry_unhashed)
  ultimately show ?thesis by simp
qed

subsection \<open>Digest mismatch\<close>



subsection \<open>When the report is written\<close>

text \<open>
  C6 as stated fails. One regular file is selected and copied with equal digests; the
  plist can be written but opening the text report raises. The run reaches the copy
  stage and exits with status 0, and only one of the two report files is in the
  container.
\<close>

theorem text_report_missing_after_copies:
  "main (world [''/evidence/a.txt''] all_succeed same_digest (\<lambda>p. p = plist_path)) =
     (0, prepared_trace @ [ditto ''/evidence/a.txt''] @ report_queries @
         [WritePlist plist_path (report_of [copied ''/evidence/a.txt'' ''ab12'' ''ab12'']),
          WriteFailed txt_path, unmount])"
  by (simp add: main_one_file report_world plist_entry_copied plist_path_def txt_path_def)

text \<open>
  C6 as amended. In every run that reaches the copy stage, the trace of \<open>main\<close> is the
  trace at the end of the copy loop, then the events of the one call of
  \<open>create_verification_report\<close> on the hash log of the loop, then the unmount command
  (missing only when an exception escaped \<open>create_verification_report\<close>). No report file
  is touched before the loop has ended. The call touches the report files in one of
  four ways: not at all (a \<open>check_output\<close> raised), a failed plist, the plist and a
  failed text report, or the plist and then the text report, each once, both in the
  \<^verbatim>\<open>forensic_logs\<close> directory of the mount point and both carrying the hash log.
\<close>

theorem report_after_copies_before_unmount:
  assumes prep: "main_prepare E = Inr ((sb, mp, logd, filesd), tr0)"
    and loop: "copy_all E tr0 filesd (selected_paths E) [] True = (ok, hash_log, tr1)"
  shows "\<exists>queries writes rest d.
     snd (main E) = tr1 @ queries @ writes @ rest \<and>
     create_verification_report E tr1 hash_log logd sb = (writes \<noteq> [], tr1 @ queries @ writes) \<and>
     logd = path_join mp ''forensic_logs'' \<and>
     (\<forall>ev\<in>set tr1. \<not> is_report_write ev) \<and>
     set queries \<subseteq> range CheckOutput \<and>
     file_hashes d = hash_log \<and>
     (writes = [] \<or>
      writes = [WriteFailed (path_join logd ''verification_report.plist'')] \<or>
      writes = [WritePlist (path_join logd ''verification_report.plist'') d,
                WriteFailed (path_join logd ''verification_report.txt'')] \<or>
      writes = [WritePlist (path_join logd ''verification_report.plist'') d,
                WriteText (path_join logd ''verification_report.txt'') (report_text d hash_log)]) \<and>
     rest = (if writes = [] then [] else [Exec (unmount_command mp)])"
proof -
  from create_verification_report_events [of E tr1 hash_log logd sb]
  obtain queries writes d where rep:
    "create_verification_report E tr1 hash_log logd sb = (writes \<noteq> [], tr1 @ queries @ writes)"
    "set queries \<subseteq> range CheckOutput" "file_hashes d = hash_log"
    "writes = [] \<or>
      writes = [WriteFailed (path_join logd ''verification_report.plist'')] \<or>
      writes = [WritePlist (path_join logd ''verification_report.plist'') d,
                WriteFailed (path_join logd ''verification_report.txt'')] \<or>
      writes = [WritePlist (path_join logd ''verification_report.plist'') d,
                WriteText (path_join logd ''verification_report.txt'') (report_text d hash_log)]"
    by blast
  let ?rest = "if writes = [] then [] else [Exec (unmount_command mp)]"
  have "snd (main E) = tr1 @ queries @ writes @ ?rest"
    using main_unfold [OF prep loop] rep(1) by (simp add: main_finish_trace)
  moreover have "\<forall>ev\<in>set tr0. \<not> is_report_write ev"
    by (rule main_prepare_no_writes [OF prep])
  with copy_all_no_writes [of E tr0 filesd "selected_paths E" "[]" True] loop
  have "\<forall>ev\<in>set tr1. \<not> is_report_write ev" by auto
  moreover have "logd = path_join mp ''forensic_logs''"
    using main_prepare_done [OF prep] by simp
  ultimately show ?thesis using rep by blast
qed

theorem report_after_copies_before_unmount_witness:
  "main_prepare (world [''/evidence/a.txt''] all_succeed same_digest (\<lambda>p. True)) =
     Inr ((''/cases/ForensicData_20240501_100000.sparsebundle'', ''/Volumes/ForensicData'',
           ''/Volumes/ForensicData/forensic_logs'', ''/Volumes/ForensicData/copied_files''),
          prepared_trace) \<and>
   copy_all (world [''/evidence/a.txt''] all_succeed same_digest (\<lambda>p. True))
     prepared_trace ''/Volumes/ForensicData/copied_files''
     (selected_paths (world [''/evidence/a.txt''] all_succeed same_digest (\<lambda>p. True))) [] True =
     (True, [copied ''/evidence/a.txt'' ''ab12'' ''ab12''], (prepared_trace @ [ditto ''/evidence/a.txt''])) \<and>
   (\<exists>queries writes rest d.
     snd (main (world [''/evidence/a.txt''] all_succeed same_digest (\<lambda>p. True))) = (prepared_trace @ [ditto ''/evidence/a.txt'']) @ queries @ writes @ rest \<and>
     create_verification_report (world [''/evidence/a.txt''] all_succeed same_digest (\<lambda>p. True)) (prepared_trace @ [ditto ''/evidence/a.txt''])
       [copied ''/evidence/a.txt'' ''ab12'' ''ab12''] ''/Volumes/ForensicData/forensic_logs'' ''/cases/ForensicData_20240501_100000.sparsebundle'' =
       (writes \<noteq> [], (prepared_trace @ [ditto ''/evidence/a.txt'']) @ queries @ writes) \<and>
     ''/Volumes/ForensicData/forensic_logs'' = path_join ''/Volumes/ForensicData'' ''forensic_logs'' \<and>
     (\<forall>ev\<in>set (prepared_trace @ [ditto ''/evidence/a.txt'']). \<not> is_report_write ev) \<and>
     set queries \<subseteq> range CheckOutput \<and>
     file_hashes d = [copied ''/evidence/a.txt'' ''ab12'' ''ab12''] \<and>
     (writes = [] \<or>
      writes = [WriteFailed (path_join ''/Volumes/ForensicData/forensic_logs'' ''verification_report.plist'')] \<or>
      writes = [WritePlist (path_join ''/Volumes/ForensicData/forensic_logs'' ''verification_report.plist'') d,
                WriteFailed (path_join ''/Volumes/ForensicData/forensic_logs'' ''verification_report.txt'')] \<or>
      writes = [WritePlist (path_join ''/Volumes/ForensicData/forensic_logs'' ''verification_report.plist'') d,
                WriteText (path_join ''/Volumes/ForensicData/forensic_logs'' ''verification_report.txt'')
                  (report_text d [copied ''/evidence/a.txt'' ''ab12'' ''ab12''])]) \<and>
     rest = (if writes = [] then [] else [Exec (unmount_command ''/Volumes/ForensicData'')])) \<and>
   snd (main (world [''/evidence/a.txt''] all_succeed same_digest (\<lambda>p. True))) =
     prepared_trace @ [ditto ''/evidence/a.txt''] @ report_queries @
       [WritePlist plist_path (report_of [copied ''/evidence/a.txt'' ''ab12'' ''ab12'']),
        WriteText txt_path (report_text (report_of [copied ''/evidence/a.txt'' ''ab12'' ''ab12'']) [copied ''/evidence/a.txt'' ''ab12'' ''ab12'']),
        unmount]"
proof -
  have prep: "main_prepare (world [''/evidence/a.txt''] all_succeed same_digest (\<lambda>p. True)) =
     Inr ((''/cases/ForensicData_20240501_100000.sparsebundle'', ''/Volumes/ForensicData'',
           ''/Volumes/ForensicData/forensic_logs'', ''/Volumes/ForensicData/copied_files''),
          prepared_trace)"
    by (rule prepare_one_file)
  have loop: "copy_all (world [''/evidence/a.txt''] all_succeed same_digest (\<lambda>p. True))
     prepared_trace ''/Volumes/ForensicData/copied_files''
     (selected_paths (world [''/evidence/a.txt''] all_succeed same_digest (\<lambda>p. True))) [] True =
     (True, [copied ''/evidence/a.txt'' ''ab12'' ''ab12''], (prepared_trace @ [ditto ''/evidence/a.txt'']))"
    using copy_one_file [of "\<lambda>p. True"] by simp
  have run: "snd (main (world [''/evidence/a.txt''] all_succeed same_digest (\<lambda>p. True))) =
     prepared_trace @ [ditto ''/evidence/a.txt''] @ report_queries @
       [WritePlist plist_path (report_of [copied ''/evidence/a.txt'' ''ab12'' ''ab12'']),
        WriteText txt_path (report_text (report_of [copied ''/evidence/a.txt'' ''ab12'' ''ab12'']) [copied ''/evidence/a.txt'' ''ab12'' ''ab12'']),
        unmount]"
    by (simp add: main_one_file report_world plist_entry_copied)
  note split = report_after_copies_before_unmount [OF prep loop]
  show ?thesis by (intro conjI prep loop run split)
qed

subsection \<open>A source that is neither file nor directory\<close>

text \<open>
  C7. When the source path is neither an existing regular file nor an existing
  directory, \<open>copy_with_metadata\<close> returns \<open>True\<close>, the hash log it returns is the one it
  was given (no record is appended) and the trace is unchanged (no copy command, no
  directory creation).
\<close>

theorem copy_with_metadata_missing_source:
  "\<not> isfile E tr source \<Longrightarrow> \<not> isdir E tr source \<Longrightarrow>
   copy_with_metadata E tr source destination hash_log = (True, hash_log, tr)"
  by (simp add: copy_with_metadata_def)

theorem copy_with_metadata_missing_source_witness:
  "\<not> isfile (world [] all_succeed (\<lambda>p. None) (\<lambda>p. True)) [] ''/evidence/deleted.txt'' \<and>
   \<not> isdir (world [] all_succeed (\<lambda>p. None) (\<lambda>p. True)) [] ''/evidence/deleted.txt'' \<and>
   copy_with_metadata (world [] all_succeed (\<lambda>p. None) (\<lambda>p. True)) [] ''/evidence/deleted.txt''
     ''/Volumes/ForensicData/copied_files'' [] = (True, [], [])"
  using copy_with_metadata_missing_source
    [of "world [] all_succeed (\<lambda>p. None) (\<lambda>p. True)" "[]" "''/evidence/deleted.txt''"
        "''/Volumes/ForensicData/copied_files''" "[]"]
  by (simp add: world_def)

subsection \<open>Container creation never overwrites\<close>

text \<open>
  C8. For every destination directory, name and size: if something already exists at
  the derived container path, \<open>create_sparsebundle\<close> returns failure together with that
  path and leaves the trace as it was, so the creation command is not run and nothing
  is done to the existing container.
\<close>

theorem create_sparsebundle_existing:
  "path_exists E tr (path_join destination_dir (name @ ''.sparsebundle'')) \<Longrightarrow>
   create_sparsebundle E tr destination_dir name size_mb =
     ((False, path_join destination_dir (name @ ''.sparsebundle'')), tr)"
  by (simp add: create_sparsebundle_def)

theorem create_sparsebundle_existing_witness:
  "path_exists (world [] all_succeed (\<lambda>p. None) (\<lambda>p. True)\<lparr>path_exists := \<lambda>tr p. True\<rparr>) []
     (path_join ''/cases'' (''ForensicData_20240501_100000'' @ ''.sparsebundle'')) \<and>
   create_sparsebundle (world [] all_succeed (\<lambda>p. None) (\<lambda>p. True)\<lparr>path_exists := \<lambda>tr p. True\<rparr>) []
     ''/cases'' ''ForensicData_20240501_100000'' 100 =
     ((False, ''/cases/ForensicData_20240501_100000.sparsebundle''), [])"
  using create_sparsebundle_existing
    [of "world [] all_succeed (\<lambda>p. None) (\<lambda>p. True)\<lparr>path_exists := \<lambda>tr p. True\<rparr>" "[]"
        "''/cases''" "''ForensicData_20240501_100000''" 100]
  by (simp add: world_def path_join_def)

subsection \<open>Empty selection\<close>

text \<open>
  C9. When the selection is empty, \<open>main\<close> returns exit status 1 and the only events of
  the run are the \<open>check_output\<close> queries of \<open>log_system_info\<close>: no command is run through
  \<open>execute_command\<close> (so no container is created or mounted), no directory is made and
  no file is written.
\<close>

theorem empty_selection_exits_early:
  "selected_paths E = [] \<Longrightarrow>
   fst (main E) = 1 \<and> set (snd (main E)) \<subseteq> range CheckOutput"
proof -
  assume sel: "selected_paths E = []"
  obtain evs where evs: "snd (log_system_info E []) = [] @ evs" "set evs \<subseteq> range CheckOutput"
    unfolding log_system_info_def using log_commands_events by blast
  obtain r where r: "log_system_info E [] = (r, evs)"
    using evs(1) by (cases "log_system_info E []") simp
  have "main E = (1, evs)"
    using sel r by (simp add: main_def main_prepare_def)
  then show ?thesis using evs(2) by simp
qed

theorem empty_selection_exits_early_witness:
  "selected_paths (world [] all_succeed (\<lambda>p. None) (\<lambda>p. True)) = [] \<and>
   fst (main (world [] all_succeed (\<lambda>p. None) (\<lambda>p. True))) = 1 \<and>
   set (snd (main (world [] all_succeed (\<lambda>p. None) (\<lambda>p. True)))) \<subseteq> range CheckOutput"
  using empty_selection_exits_early [of "world [] all_succeed (\<lambda>p. None) (\<lambda>p. True)"]
  by (simp add: world_def)

subsection \<open>Writing the report twice\<close>

text \<open>
  C10. When \<open>create_verification_report\<close> is called twice in a row with the same hash
  log, output directory and container path, and each call writes a plist and a text
  report, then both plists carry the hash log as their \<open>file_hashes\<close>, both text reports
  end with the same rendering of the records (paths, digests, match line and record
  timestamp of every record, in order) after their own header, and the two calls write
  the same two files.
\<close>

theorem report_records_idempotent:
  assumes first: "create_verification_report E tr hash_log output_path sb = (returned1, tr1)"
    and second: "create_verification_report E tr1 hash_log output_path sb = (returned2, tr2)"
    and plist1: "WritePlist p1 d1 \<in> set (drop (length tr) tr1)"
    and plist2: "WritePlist p2 d2 \<in> set (drop (length tr1) tr2)"
    and text1: "WriteText q1 s1 \<in> set (drop (length tr) tr1)"
    and text2: "WriteText q2 s2 \<in> set (drop (length tr1) tr2)"
  shows "file_hashes d1 = hash_log \<and> file_hashes d2 = hash_log \<and>
    s1 = report_header d1 @ concat (map render_entry hash_log) \<and>
    s2 = report_header d2 @ concat (map render_entry hash_log) \<and>
    map render_entry (file_hashes d1) = map render_entry (file_hashes d2) \<and>
    p1 = p2 \<and> q1 = q2 \<and> sparsebundle_path d1 = sparsebundle_path d2"
proof -
  have one: "file_hashes d = hash_log \<and> s = report_header d @ concat (map render_entry hash_log) \<and>
      p = path_join output_path ''verification_report.plist'' \<and>
      q = path_join output_path ''verification_report.txt'' \<and> sparsebundle_path d = sb"
    if call: "create_verification_report E t hash_log output_path sb = (r, t')"
      and wp: "WritePlist p d \<in> set (drop (length t) t')"
      and wt: "WriteText q s \<in> set (drop (length t) t')" for t t' r p d q s
  proof -
    from create_verification_report_events [of E t hash_log output_path sb] call
    obtain queries writes d' where ev: "t' = t @ queries @ writes"
      "set queries \<subseteq> range CheckOutput" "file_hashes d' = hash_log" "sparsebundle_path d' = sb"
      "writes = [] \<or>
       writes = [WriteFailed (path_join output_path ''verification_report.plist'')] \<or>
       writes = [WritePlist (path_join output_path ''verification_report.plist'') d',
                WriteFailed (path_join output_path ''verification_report.txt'')] \<or>
       writes = [WritePlist (path_join output_path ''verification_report.plist'') d',
                WriteText (path_join output_path ''verification_report.txt'')
                  (report_text d' hash_log)]"
      by auto
    from wp wt ev(1) have "WritePlist p d \<in> set queries \<union> set writes"
      "WriteText q s \<in> set queries \<union> set writes" by auto
    with ev(2) have "WritePlist p d \<in> set writes" "WriteText q s \<in> set writes" by auto
    with ev(5) have "d = d'" "p = path_join output_path ''verification_report.plist''"
      "q = path_join output_path ''verification_report.txt''" "s = report_text d' hash_log"
      by auto
    with ev(3,4) show ?thesis by (simp add: report_text_def)
  qed
  from one [OF first plist1 text1] one [OF second plist2 text2] show ?thesis by simp
qed

theorem report_records_idempotent_witness:
  "create_verification_report (world [''/evidence/a.txt''] all_succeed same_digest (\<lambda>p. True)) []
     [copied ''/evidence/a.txt'' ''ab12'' ''ab12''] ''/Volumes/ForensicData/forensic_logs''
     ''/cases/ForensicData_20240501_100000.sparsebundle'' =
     (True, report_queries @
        [WritePlist plist_path (report_of [copied ''/evidence/a.txt'' ''ab12'' ''ab12'']),
         WriteText txt_path
           (report_text (report_of [copied ''/evidence/a.txt'' ''ab12'' ''ab12''])
              [copied ''/evidence/a.txt'' ''ab12'' ''ab12''])]) \<and>
   create_verification_report (world [''/evidence/a.txt''] all_succeed same_digest (\<lambda>p. True))
     (report_queries @
        [WritePlist plist_path (report_of [copied ''/evidence/a.txt'' ''ab12'' ''ab12'']),
         WriteText txt_path
           (report_text (report_of [copied ''/evidence/a.txt'' ''ab12'' ''ab12''])
              [copied ''/evidence/a.txt'' ''ab12'' ''ab12''])])
     [copied ''/evidence/a.txt'' ''ab12'' ''ab12''] ''/Volumes/ForensicData/forensic_logs''
     ''/cases/ForensicData_20240501_100000.sparsebundle'' =
     (True, (report_queries @
        [WritePlist plist_path (report_of [copied ''/evidence/a.txt'' ''ab12'' ''ab12'']),
         WriteText txt_path
           (report_text (report_of [copied ''/evidence/a.txt'' ''ab12'' ''ab12''])
              [copied ''/evidence/a.txt'' ''ab12'' ''ab12''])]) @
        report_queries @
        [WritePlist plist_path (report_of [copied ''/evidence/a.txt'' ''ab12'' ''ab12'']),
         WriteText txt_path
           (report_text (report_of [copied ''/evidence/a.txt'' ''ab12'' ''ab12''])
              [copied ''/evidence/a.txt'' ''ab12'' ''ab12''])]) \<and>
   file_hashes (report_of [copied ''/evidence/a.txt'' ''ab12'' ''ab12'']) =
     [copied ''/evidence/a.txt'' ''ab12'' ''ab12''] \<and>
   report_text (report_of [copied ''/evidence/a.txt'' ''ab12'' ''ab12''])
       [copied ''/evidence/a.txt'' ''ab12'' ''ab12''] =
     report_header (report_of [copied ''/evidence/a.txt'' ''ab12'' ''ab12'']) @
     concat (map render_entry [copied ''/evidence/a.txt'' ''ab12'' ''ab12''])"
proof -
  let ?W = "world [''/evidence/a.txt''] all_succeed same_digest (\<lambda>p. True)"
  let ?log = "[copied ''/evidence/a.txt'' ''ab12'' ''ab12'']"
  let ?new = "report_queries @
        [WritePlist plist_path (report_of ?log), WriteText txt_path (report_text (report_of ?log) ?log)]"
  have first: "create_verification_report ?W [] ?log ''/Volumes/ForensicData/forensic_logs''
     ''/cases/ForensicData_20240501_100000.sparsebundle'' = (True, ?new)"
    by (simp add: report_world plist_entry_copied)
  have second: "create_verification_report ?W ?new ?log ''/Volumes/ForensicData/forensic_logs''
     ''/cases/ForensicData_20240501_100000.sparsebundle'' = (True, ?new @ ?new)"
    by (simp add: report_world plist_entry_copied)
  have plist1: "WritePlist plist_path (report_of ?log) \<in> set (drop (length ([] :: event list)) ?new)"
    by simp
  have plist2: "WritePlist plist_path (report_of ?log) \<in> set (drop (length ?new) (?new @ ?new))"
    by simp
  have text1: "WriteText txt_path (report_text (report_of ?log) ?log)
      \<in> set (drop (length ([] :: event list)) ?new)"
    by simp
  have text2: "WriteText txt_path (report_text (report_of ?log) ?log)
      \<in> set (drop (length ?new) (?new @ ?new))"
    by simp
  from report_records_idempotent [OF first second plist1 plist2 text1 text2] first second
  show ?thesis by simp
qed


end
